theory Spec2Isabelle
  imports Main "HOL-Library.AList" "HOL-Library.Char_ord" "HOL-Library.List_Lexorder"
begin

section \<open>Values of the evaluator\<close>

text \<open>
  The evaluator works on Python objects: \<open>None\<close>, atomic values, nodes, Python lists
  (the materialised sequences), and the two structured items of XPath 3.1, maps and
  arrays. A map item is the dictionary it holds, kept as an association list in
  insertion order (the order \<open>values()\<close> reports); an array item is the list of its
  members. A node carries the typed value that atomization extracts.
\<close>

datatype atomic = AInt int | AStr string

datatype pyval =
    PNone
  | PAtom atomic
  | PNode atomic
  | PList "pyval list"
  | PMap "(atomic \<times> pyval) list"
  | PArray "pyval list"

text \<open>The error codes that the modelled code raises.\<close>

datatype error =
    XPST0003    \<comment> \<open>static syntax error (\<open>wrong_syntax\<close>)\<close>
  | XPST0017    \<comment> \<open>unknown function name or arity\<close>
  | XPDY0002    \<comment> \<open>absent dynamic context (\<open>missing_context\<close>)\<close>
  | XPTY0004    \<comment> \<open>dynamic type error\<close>
  | FOAY0001    \<comment> \<open>array index out of bounds\<close>
  | IndexError  \<comment> \<open>Python's own, for \<open>self[i]\<close> on a token with too few children\<close>

record xpath_context =
  item :: pyval

subsection \<open>Generators\<close>

text \<open>
  A Python generator that ends is the list of the items it yields, in order, followed
  either by a normal end (\<open>None\<close>) or by the exception that stops it. A \<open>for\<close> loop
  over a list whose body yields from a generator per element is \<open>gen_for\<close>; a loop
  over a generator is \<open>gen_bind\<close>: the exception of the iterated generator surfaces
  after the bodies of the items it yielded before.
\<close>

type_synonym gen = "pyval list \<times> error option"

fun gen_for :: "pyval list \<Rightarrow> (pyval \<Rightarrow> gen) \<Rightarrow> gen" where
  "gen_for [] body = ([], None)"
| "gen_for (x # xs) body =
     (case body x of
        (ys, Some e) \<Rightarrow> (ys, Some e)
      | (ys, None) \<Rightarrow> (case gen_for xs body of (zs, r) \<Rightarrow> (ys @ zs, r)))"

definition gen_bind :: "gen \<Rightarrow> (pyval \<Rightarrow> gen) \<Rightarrow> gen" where
  "gen_bind g body =
     (case gen_for (fst g) body of
        (ys, Some e) \<Rightarrow> (ys, Some e)
      | (ys, None) \<Rightarrow> (ys, snd g))"

definition gen_raise :: "error \<Rightarrow> gen" where
  "gen_raise e = ([], Some e)"

definition gen_yield :: "pyval list \<Rightarrow> gen" where
  "gen_yield xs = (xs, None)"

text \<open>\<open>[x for x in g]\<close>: the list of all items, or the exception.\<close>

definition gen_list :: "gen \<Rightarrow> error + pyval" where
  "gen_list g = (case snd g of None \<Rightarrow> Inr (PList (fst g)) | Some e \<Rightarrow> Inl e)"

subsection \<open>Helpers of the repository that the operators call\<close>

definition iter_sequence :: "pyval \<Rightarrow> pyval list" where
  \<comment> \<open>Modelled from the spec: \<open>helpers.iter_sequence\<close> is not among the sources. Spec 3.1:
      an absent value gives no item, a sequence gives its items (flattening one level),
      a single item is the 1-sequence containing it; maps and arrays are items and are
      not flattened.\<close>
  "iter_sequence obj = (case obj of PNone \<Rightarrow> [] | PList xs \<Rightarrow> xs | _ \<Rightarrow> [obj])"

definition data_value :: "pyval \<Rightarrow> pyval" where
  \<comment> \<open>Modelled from the spec: \<open>XPathToken.data_value\<close> is not among the sources. Glossary,
      atomization: the typed value of a node, an atomic value unchanged.\<close>
  "data_value obj = (case obj of PNode a \<Rightarrow> PAtom a | _ \<Rightarrow> obj)"

definition map_call :: "(atomic \<times> pyval) list \<Rightarrow> pyval \<Rightarrow> error + pyval" where
  \<comment> \<open>Modelled from the spec: \<open>XPathMap.__call__\<close> is not among the sources. Spec 3.4: keys
      are atomic values, a bound key gives its value, a missing key gives the empty
      sequence (\<open>None\<close>, as \<open>test_map_weekdays\<close> asserts); a key that is not atomic is a
      type error.\<close>
  "map_call m k =
     (case k of
        PAtom a \<Rightarrow> (case map_of m a of Some v \<Rightarrow> Inr v | None \<Rightarrow> Inr PNone)
      | _ \<Rightarrow> Inl XPTY0004)"

definition map_values :: "(atomic \<times> pyval) list \<Rightarrow> pyval list" where
  \<comment> \<open>Modelled from the spec: \<open>XPathMap.values\<close> is not among the sources; the values of
      all bindings.\<close>
  "map_values m = map snd m"

definition array_call :: "pyval list \<Rightarrow> pyval \<Rightarrow> error + pyval" where
  \<comment> \<open>Modelled from the spec: \<open>XPathArray.__call__\<close> is not among the sources. Spec 3.4: an
      array is a 1-based sequence of members; a position that is not an integer is a
      type error, a position outside \<open>1..size\<close> has no member.\<close>
  "array_call a k =
     (case k of
        PAtom (AInt i) \<Rightarrow>
          (if 1 \<le> i \<and> i \<le> int (length a) then Inr (a ! nat (i - 1)) else Inl FOAY0001)
      | _ \<Rightarrow> Inl XPTY0004)"

definition array_items :: "pyval list \<Rightarrow> pyval list" where
  \<comment> \<open>Modelled from the spec: \<open>XPathArray.items\<close> is not among the sources; the members in
      order.\<close>
  "array_items a = a"

section \<open>Tokens\<close>

text \<open>
  A token is a node of the expression tree: its symbol, its value, its children (the
  token is itself the Python list of them), its binding powers, and its methods. The
  methods of the token classes that are not among the sources are fields of the
  token, so that the operators below call them as the code does.
\<close>

type_synonym xpath_function = "xpath_context option \<Rightarrow> pyval list \<Rightarrow> error + pyval"

datatype token = Token
  (tok_symbol: string)
  (tok_label: string)
  (tok_value: pyval)
  (tok_items: "token list")
  (tok_lbp: nat)
  (tok_rbp: nat)
  (tok_select: "xpath_context option \<Rightarrow> gen")
  (tok_evaluate: "xpath_context option \<Rightarrow> error + pyval")
  (tok_get_function: "xpath_context option \<Rightarrow> nat \<Rightarrow> error + xpath_function")

definition set_items :: "token \<Rightarrow> token list \<Rightarrow> token" where
  \<comment> \<open>\<open>self[:] = ...\<close>\<close>
  "set_items t ts =
     Token (tok_symbol t) (tok_label t) (tok_value t) ts (tok_lbp t) (tok_rbp t)
       (tok_select t) (tok_evaluate t) (tok_get_function t)"

section \<open>The lookup operator\<close>

text \<open>
  \<open>LookupOperatorToken.select\<close>, lines 164-188: the body of the loop over the items,
  for one item. \<open>key\<close> is \<open>self[-1]\<close>.
\<close>

definition lookup_item :: "token \<Rightarrow> xpath_context option \<Rightarrow> pyval \<Rightarrow> gen" where
  "lookup_item key context it =
     (let symbol = tok_symbol key in
      case it of
        PMap m \<Rightarrow>
          if symbol = ''*'' then
            gen_for (map_values m) (\<lambda>v. gen_yield (iter_sequence v))
          else if symbol = ''(name)'' \<or> symbol = ''(integer)'' then
            (case map_call m (tok_value key) of
               Inl e \<Rightarrow> gen_raise e
             | Inr v \<Rightarrow> gen_yield (iter_sequence v))
          else if symbol = ''('' then
            gen_bind (tok_select key context)
              (\<lambda>v. case map_call m (data_value v) of
                      Inl e \<Rightarrow> gen_raise e
                    | Inr r \<Rightarrow> gen_yield (iter_sequence r))
          else gen_yield []
      | PArray a \<Rightarrow>
          if symbol = ''*'' then gen_yield (array_items a)
          else if symbol = ''(name)'' then gen_raise XPTY0004
          else if symbol = ''(integer)'' then
            (case array_call a (tok_value key) of
               Inl e \<Rightarrow> gen_raise e
             | Inr v \<Rightarrow> gen_yield [v])
          else if symbol = ''('' then
            gen_bind (tok_select key context)
              (\<lambda>v. case array_call a (data_value v) of
                      Inl e \<Rightarrow> gen_raise e
                    | Inr r \<Rightarrow> gen_yield [r])
          else gen_yield []
      | _ \<Rightarrow> gen_raise XPTY0004)"

text \<open>\<open>LookupOperatorToken.select\<close>, lines 151-188.\<close>

definition LookupOperatorToken_select :: "token \<Rightarrow> xpath_context option \<Rightarrow> gen" where
  "LookupOperatorToken_select self context =
     (if tok_items self = [] then gen_yield (iter_sequence (tok_value self))
      else if length (tok_items self) = 1 then
        (case context of
           None \<Rightarrow> gen_raise XPDY0002
         | Some c \<Rightarrow> gen_for [item c] (lookup_item (last (tok_items self)) context))
      else
        gen_bind (tok_select (hd (tok_items self)) context)
          (lookup_item (last (tok_items self)) context))"

text \<open>\<open>LookupOperatorToken.evaluate\<close>, lines 146-149.\<close>

definition LookupOperatorToken_evaluate :: "token \<Rightarrow> xpath_context option \<Rightarrow> error + pyval" where
  "LookupOperatorToken_evaluate self context =
     (if tok_items self = [] then Inr (tok_value self)
      else gen_list (LookupOperatorToken_select self context))"

section \<open>The arrow operator\<close>

text \<open>
  \<open>evaluate_arrow_operator\<close>, lines 219-230. The token has the children that
  \<open>led_arrow_operator\<close> gives it: \<open>self[0]\<close> the left operand, \<open>self[1]\<close> the function
  token, \<open>self[2]\<close> the parenthesised argument list. The truth value of a token is that
  of the list of its children.
\<close>

definition arrow_arguments :: "token \<Rightarrow> xpath_context option \<Rightarrow> error + pyval list" where
  "arrow_arguments self context =
     (if length (tok_items self) < 3 then Inl IndexError
      else
        case tok_evaluate (tok_items self ! 0) context of
          Inl e \<Rightarrow> Inl e
        | Inr x \<Rightarrow>
            if tok_items (tok_items self ! 2) \<noteq> [] then
              (case tok_evaluate (tok_items self ! 2) context of
                 Inl e \<Rightarrow> Inl e
               | Inr other_args \<Rightarrow>
                   (case other_args of
                      PList ys \<Rightarrow> Inr ([x] @ ys)
                    | _ \<Rightarrow> Inr ([x] @ [other_args])))
            else Inr [x])"


subsection \<open>The function call that the arrow expression is compared with\<close>

fun evaluate_each :: "token list \<Rightarrow> xpath_context option \<Rightarrow> error + pyval list" where
  "evaluate_each [] context = Inr []"
| "evaluate_each (t # ts) context =
     (case tok_evaluate t context of
        Inl e \<Rightarrow> Inl e
      | Inr v \<Rightarrow> (case evaluate_each ts context of Inl e \<Rightarrow> Inl e | Inr vs \<Rightarrow> Inr (v # vs)))"





section \<open>Map and array functions\<close>

definition map_put :: "(atomic \<times> pyval) list \<Rightarrow> atomic \<Rightarrow> pyval \<Rightarrow> (atomic \<times> pyval) list" where
  \<comment> \<open>Modelled from the spec: \<open>map:put\<close> is not among the sources. Spec 4.4 and 5: the map
      with the binding of the key added or replaced; \<open>test_map_put_function\<close>.\<close>
  "map_put m k v = AList.update k v m"

definition map_remove :: "(atomic \<times> pyval) list \<Rightarrow> atomic list \<Rightarrow> (atomic \<times> pyval) list" where
  \<comment> \<open>Modelled from the spec: \<open>map:remove\<close> is not among the sources. The map without the
      bindings of the given keys; \<open>test_map_remove_function\<close>.\<close>
  "map_remove m ks = filter (\<lambda>kv. fst kv \<notin> set ks) m"

definition array_append :: "pyval list \<Rightarrow> pyval \<Rightarrow> pyval list" where
  \<comment> \<open>Modelled from the spec: \<open>array:append\<close> is not among the sources. The array with
      one more member, the appended value; \<open>test_array_append_function\<close>.\<close>
  "array_append a v = a @ [v]"

section \<open>The parser\<close>

text \<open>
  The state of the Pratt parser that the token methods read and change: the version
  of the XPath language, the current token, the next token, and the tokens that the
  tokenizer has still to deliver. \<open>parser.expression\<close> belongs to the parser core,
  which is not among the sources: the methods below take it as a parameter.
\<close>

record parser =
  version :: string
  token :: token
  next_token :: token
  tokens :: "token list"

type_synonym expression = "nat \<Rightarrow> parser \<Rightarrow> error + token \<times> parser"

definition no_select :: "xpath_context option \<Rightarrow> gen" where
  "no_select c = ([], None)"

definition no_evaluate :: "xpath_context option \<Rightarrow> error + pyval" where
  "no_evaluate c = Inr PNone"

definition no_function :: "xpath_context option \<Rightarrow> nat \<Rightarrow> error + xpath_function" where
  "no_function c n = Inl XPST0017"

definition end_token :: token where
  "end_token = Token ''(end)'' ''symbol'' PNone [] 0 0 no_select no_evaluate no_function"

definition advance :: "parser \<Rightarrow> string list \<Rightarrow> error + parser" where
  \<comment> \<open>Modelled from the spec: \<open>Parser.advance\<close> is not among the sources. Spec 4.2: the
      next token becomes the current one and the tokenizer delivers the following one,
      \<open>(end)\<close> after the last; with expected symbols, a next token of another symbol is
      a syntax error.\<close>
  "advance p symbols =
     (if symbols \<noteq> [] \<and> tok_symbol (next_token p) \<notin> set symbols then Inl XPST0003
      else Inr (p\<lparr>token := next_token p,
                  next_token := (case tokens p of [] \<Rightarrow> end_token | t # ts \<Rightarrow> t),
                  tokens := (case tokens p of [] \<Rightarrow> [] | t # ts \<Rightarrow> ts)\<rparr>))"

definition expected_next :: "parser \<Rightarrow> string list \<Rightarrow> error + unit" where
  \<comment> \<open>Modelled from the spec: \<open>Parser.expected_next\<close> is not among the sources; a syntax
      error unless the next token has one of the symbols.\<close>
  "expected_next p symbols =
     (if tok_symbol (next_token p) \<in> set symbols then Inr () else Inl XPST0003)"

definition as_name :: "token \<Rightarrow> parser \<Rightarrow> token \<times> parser" where
  \<comment> \<open>Modelled from the spec: \<open>XPathToken.as_name\<close> is not among the sources. Spec 4.1: the
      keyword is re-tagged as a \<open>(name)\<close> token, whose value is the name, and becomes
      the current token.\<close>
  "as_name self p =
     (let t = Token ''(name)'' ''name'' (PAtom (AStr (tok_symbol self))) [] 0 0
                no_select no_evaluate no_function
      in (t, p\<lparr>token := t\<rparr>))"

definition led_applies :: "nat \<Rightarrow> token \<Rightarrow> bool" where
  \<comment> \<open>Modelled from the spec: the loop of \<open>Parser.expression\<close> is not among the sources.
      Spec 4.2: \<open>expression(rbp)\<close> goes on to the left denotation of the next token
      while \<open>rbp < lbp\<close>.\<close>
  "led_applies rbp t = (rbp < tok_lbp t)"

subsection \<open>Array constructors\<close>

definition XPathArray_evaluate :: "token \<Rightarrow> xpath_context option \<Rightarrow> error + pyval" where
  \<comment> \<open>Modelled from the spec: \<open>XPathArray.evaluate\<close> is not among the sources. Spec 3.4
      and scenario 4: a square constructor has one member per member expression, its
      value; a curly constructor has one member per item of the enclosed sequence.\<close>
  "XPathArray_evaluate self context =
     (case evaluate_each (tok_items self) context of
        Inl e \<Rightarrow> Inl e
      | Inr vs \<Rightarrow>
          if tok_symbol self = ''['' then Inr (PArray vs)
          else Inr (PArray (concat (map iter_sequence vs))))"

definition XPathArray :: "string \<Rightarrow> token list \<Rightarrow> token" where
  \<comment> \<open>Modelled from the spec: the class \<open>XPathArray\<close> is not among the sources. The
      array token with the given symbol and member expressions; \<open>array\<close> is registered
      with binding power 90 (line 58).\<close>
  "XPathArray symbol members =
     (let self = Token symbol ''array'' PNone members 90 90 no_select no_evaluate no_function
      in Token symbol ''array'' PNone members 90 90
           (\<lambda>c. case XPathArray_evaluate self c of Inl e \<Rightarrow> ([], Some e) | Inr v \<Rightarrow> ([v], None))
           (XPathArray_evaluate self) no_function)"

text \<open>
  The loop of lines 105-109, with the members parsed so far. The loop ends when
  \<open>expression\<close> raises or leaves a next token other than a comma; \<open>fuel\<close> bounds the
  number of iterations, and \<open>None\<close> says that it ran out.
\<close>

fun array_members ::
  "nat \<Rightarrow> expression \<Rightarrow> parser \<Rightarrow> token list \<Rightarrow> (error + token list \<times> parser) option" where
  "array_members 0 expression p members = None"
| "array_members (Suc fuel) expression p members =
     (case expression 5 p of
        Inl e \<Rightarrow> Some (Inl e)
      | Inr (t, p1) \<Rightarrow>
          if tok_symbol (next_token p1) \<noteq> '','' then Some (Inr (members @ [t], p1))
          else
            (case advance p1 [] of
               Inl e \<Rightarrow> Some (Inl e)
             | Inr p2 \<Rightarrow> array_members fuel expression p2 (members @ [t])))"

text \<open>\<open>nud_square_array_constructor\<close>, lines 96-112.\<close>

definition nud_square_array_constructor ::
  "nat \<Rightarrow> expression \<Rightarrow> token \<Rightarrow> parser \<Rightarrow> (error + token \<times> parser) option" where
  "nud_square_array_constructor fuel expression self p =
     (if version p < ''3.1'' then Some (Inl XPST0003)
      else
        (case (if tok_symbol (next_token p) \<noteq> '']'' \<and> tok_symbol (next_token p) \<noteq> ''(end)''
               then array_members fuel expression p []
               else Some (Inr ([], p))) of
           None \<Rightarrow> None
         | Some (Inl e) \<Rightarrow> Some (Inl e)
         | Some (Inr (members, p1)) \<Rightarrow>
             (case advance p1 ['']''] of
                Inl e \<Rightarrow> Some (Inl e)
              | Inr p2 \<Rightarrow> Some (Inr (XPathArray ''['' members, p2)))))"

definition XPathArray_nud ::
  "nat \<Rightarrow> expression \<Rightarrow> parser \<Rightarrow> (error + token \<times> parser) option" where
  \<comment> \<open>Modelled from the spec: \<open>XPathArray.nud\<close>, the curly constructor \<open>array { ... }\<close>, is
      not among the sources. Spec 4.2: the expressions between the braces, parsed as
      the square constructor parses them between the brackets.\<close>
  "XPathArray_nud fuel expression p =
     (case advance p [''{''] of
        Inl e \<Rightarrow> Some (Inl e)
      | Inr p0 \<Rightarrow>
          (case (if tok_symbol (next_token p0) \<noteq> ''}'' \<and> tok_symbol (next_token p0) \<noteq> ''(end)''
                 then array_members fuel expression p0 []
                 else Some (Inr ([], p0))) of
             None \<Rightarrow> None
           | Some (Inl e) \<Rightarrow> Some (Inl e)
           | Some (Inr (members, p1)) \<Rightarrow>
               (case advance p1 [''}''] of
                  Inl e \<Rightarrow> Some (Inl e)
                | Inr p2 \<Rightarrow> Some (Inr (XPathArray ''array'' members, p2)))))"

subsection \<open>The keywords \<open>map\<close> and \<open>array\<close>\<close>

definition kind_test :: "token \<Rightarrow> token list \<Rightarrow> token" where
  \<comment> \<open>\<open>self.label = 'kind test'\<close>, \<open>self[:] = ...\<close> and \<open>self.value = None\<close>\<close>
  "kind_test self operands =
     Token (tok_symbol self) ''kind test'' PNone operands (tok_lbp self) (tok_rbp self)
       (tok_select self) (tok_evaluate self) (tok_get_function self)"

type_synonym occurrence_parser = "token \<Rightarrow> parser \<Rightarrow> error + token \<times> parser"



text \<open>
  \<open>nud_sequence_type_or_curly_array_constructor\<close>, lines 62-80. The curly constructor
  may not return, so neither may this method. \<open>self.parse_occurrence()\<close> of line 78 is
  the same parameter, applied to the token itself.
\<close>

definition nud_sequence_type_or_curly_array_constructor ::
  "expression \<Rightarrow> occurrence_parser \<Rightarrow> (parser \<Rightarrow> (error + token \<times> parser) option)
     \<Rightarrow> token \<Rightarrow> parser \<Rightarrow> (error + token \<times> parser) option" where
  "nud_sequence_type_or_curly_array_constructor expression parse_occurrence curly_nud self p =
     (if tok_symbol (next_token p) = ''{'' then
        (case curly_nud p of
           None \<Rightarrow> None
         | Some (Inl e) \<Rightarrow> Some (Inl e)
         | Some (Inr (t, p1)) \<Rightarrow> Some (Inr (t, p1\<lparr>token := t\<rparr>)))
      else if tok_symbol (next_token p) \<noteq> ''('' then Some (Inr (as_name self p))
      else
        Some
        (case advance p [''(''] of
           Inl e \<Rightarrow> Inl e
         | Inr p1 \<Rightarrow>
             (case (if tok_label (next_token p1) \<noteq> ''kind test''
                    then expected_next p1 [''(name)'', '':'', ''*'']
                    else Inr ()) of
                Inl e \<Rightarrow> Inl e
              | Inr u \<Rightarrow>
                  (case expression 45 p1 of
                     Inl e \<Rightarrow> Inl e
                   | Inr (t, p2) \<Rightarrow>
                       (case (if tok_symbol t \<noteq> ''*'' then parse_occurrence t p2
                              else Inr (t, p2)) of
                          Inl e \<Rightarrow> Inl e
                        | Inr (t0, p3) \<Rightarrow>
                            (case advance p3 ['')''] of
                               Inl e \<Rightarrow> Inl e
                             | Inr p4 \<Rightarrow>
                                 (case parse_occurrence (kind_test self [t0]) p4 of
                                    Inl e \<Rightarrow> Inl e
                                  | Inr (self1, p5) \<Rightarrow>
                                      Inr (kind_test self1 (tok_items self1), p5))))))))"

subsection \<open>The token of the question mark\<close>

definition LookupOperatorToken_methods :: "token \<Rightarrow> token" where
  \<comment> \<open>The token with \<open>select\<close> and \<open>evaluate\<close> of its class, for the parent that calls
      them.\<close>
  "LookupOperatorToken_methods t =
     Token (tok_symbol t) (tok_label t) (tok_value t) (tok_items t) (tok_lbp t) (tok_rbp t)
       (LookupOperatorToken_select t) (LookupOperatorToken_evaluate t) (tok_get_function t)"

definition XPathToken_init :: "string \<Rightarrow> nat \<Rightarrow> nat \<Rightarrow> pyval \<Rightarrow> token" where
  \<comment> \<open>Modelled from the spec: the constructor of the base class is not among the
      sources. Spec 4.1: a freshly constructed node of its symbol's class, carrying the
      value it was given, without children.\<close>
  "XPathToken_init symbol l r v =
     Token symbol ''operator'' v [] l r no_select no_evaluate no_function"

text \<open>
  \<open>LookupOperatorToken.__init__\<close>, lines 124-130; the class has \<open>lbp = rbp = 85\<close>
  (lines 121-122). \<open>value\<close> is \<open>None\<close> when the caller gives none.
\<close>

definition LookupOperatorToken_init :: "parser \<Rightarrow> pyval \<Rightarrow> token" where
  "LookupOperatorToken_init p v =
     (let self = XPathToken_init ''?'' 85 85 v in
      if tok_symbol (token p) = ''(name)'' then LookupOperatorToken_methods self
      else if tok_symbol (token p) = ''('' \<or> tok_symbol (token p) = '','' then
        LookupOperatorToken_methods (XPathToken_init ''?'' 0 0 v)
      else LookupOperatorToken_methods self)"

text \<open>\<open>LookupOperatorToken.nud\<close>, lines 132-139: the syntax error is caught.\<close>

definition LookupOperatorToken_nud ::
  "expression \<Rightarrow> token \<Rightarrow> parser \<Rightarrow> error + token \<times> parser" where
  "LookupOperatorToken_nud expression self p =
     (case expected_next p [''(name)'', ''(integer)'', ''('', ''*''] of
        Inl e \<Rightarrow> (if e = XPST0003 then Inr (self, p) else Inl e)
      | Inr u \<Rightarrow>
          (case expression 85 p of
             Inl e \<Rightarrow> Inl e
           | Inr (t, p1) \<Rightarrow> Inr (LookupOperatorToken_methods (set_items self [t]), p1)))"

text \<open>\<open>LookupOperatorToken.led\<close>, lines 141-144.\<close>

definition LookupOperatorToken_led ::
  "expression \<Rightarrow> token \<Rightarrow> token \<Rightarrow> parser \<Rightarrow> error + token \<times> parser" where
  "LookupOperatorToken_led expression self left p =
     (case expected_next p [''(name)'', ''(integer)'', ''('', ''*''] of
        Inl e \<Rightarrow> Inl e
      | Inr u \<Rightarrow>
          (case expression 85 p of
             Inl e \<Rightarrow> Inl e
           | Inr (t, p1) \<Rightarrow> Inr (LookupOperatorToken_methods (set_items self [left, t]), p1)))"

section \<open>The pattern of the keywords\<close>

text \<open>
  The patterns that lines 27 and 59 register are regular expressions of Python's
  \<open>re\<close>. A regular expression is matched at a position of the text: the state is the
  character before the position, if any, and the text from the position on. The
  matcher returns the states after every way of matching, the first the one that
  Python's backtracking tries first; the expression matches when there is one.
\<close>

datatype char_class = Whitespace | AnyButNewline

datatype regex =
    Lit string                \<comment> \<open>a literal text\<close>
  | Star char_class           \<comment> \<open>\<open>\s*\<close> and \<open>.*\<close>\<close>
  | Seq regex regex
  | Alt regex regex           \<comment> \<open>\<open>a|b\<close>\<close>
  | Opt regex                 \<comment> \<open>\<open>(?:a)?\<close>\<close>
  | Lookahead regex           \<comment> \<open>\<open>(?=a)\<close>\<close>
  | NegLookahead regex        \<comment> \<open>\<open>(?!a)\<close>\<close>
  | NegLookbehind char        \<comment> \<open>\<open>(?<!c)\<close>\<close>
  | WordBoundary              \<comment> \<open>\<open>\b\<close>\<close>








definition comment_pattern :: regex where
  \<comment> \<open>\<open>\(\:.*\:\)\<close>\<close>
  "comment_pattern = Seq (Lit ''(:'') (Seq (Star AnyButNewline) (Lit '':)''))"

definition keyword_pattern :: "string \<Rightarrow> regex" where
  \<comment> \<open>\<open>(?<!\$)\bNAME(?=\s*(?:\(\:.*\:\))?\s*(?=\(|\{)(?!\:))\<close>\<close>
  "keyword_pattern name =
     Seq (NegLookbehind (CHR ''$''))
       (Seq WordBoundary
          (Seq (Lit name)
             (Lookahead
                (Seq (Star Whitespace)
                   (Seq (Opt comment_pattern)
                      (Seq (Star Whitespace)
                         (Seq (Lookahead (Alt (Lit ''('') (Lit ''{'')))
                              (NegLookahead (Lit '':'')))))))))"


definition array_pattern :: regex where
  \<comment> \<open>line 59\<close>
  "array_pattern = keyword_pattern ''array''"




section \<open>Translation maps of the format functions\<close>

text \<open>
  \<open>translation_maps.py\<close>. A Python dictionary keeps the order in which its literal
  lists the keys, and the format functions iterate in that order: the tables are
  association lists.
\<close>

definition ROMAN_NUMERALS_MAP :: "(nat \<times> string) list" where
  "ROMAN_NUMERALS_MAP =
     [(1000, ''M''), (900, ''CM''), (500, ''D''), (400, ''CD''), (100, ''C''), (90, ''XC''),
      (50, ''L''), (40, ''XL''), (10, ''X''), (9, ''IX''), (5, ''V''), (4, ''IV''), (1, ''I'')]"

definition NUM_TO_WORD_MAPS :: "(string \<times> (nat \<times> string) list) list" where
  "NUM_TO_WORD_MAPS =
     [(''en'',
       [(10 ^ 9, ''billion''), (10 ^ 6, ''million''), (1000, ''thousand''), (100, ''hundred''),
        (90, ''ninety''), (80, ''eighty''), (70, ''seventy''), (60, ''sixty''), (50, ''fifty''),
        (40, ''forty''), (30, ''thirty''), (20, ''twenty''), (19, ''nineteen''),
        (18, ''eighteen''), (17, ''seventeen''), (16, ''sixteen''), (15, ''fifteen''),
        (14, ''fourteen''), (13, ''thirteen''), (12, ''twelve''), (11, ''eleven''), (10, ''ten''),
        (9, ''nine''), (8, ''eight''), (7, ''seven''), (6, ''six''), (5, ''five''), (4, ''four''),
        (3, ''three''), (2, ''two''), (1, ''one''), (0, ''zero'')]),
      (''it'',
       [(10 ^ 9, ''miliardo''), (10 ^ 6, ''milione''), (1000, ''mille''), (100, ''cento''),
        (90, ''novanta''), (80, ''ottanta''), (70, ''settanta''), (60, ''sessanta''),
        (50, ''cinquanta''), (40, ''quaranta''), (30, ''trenta''), (20, ''venti''),
        (19, ''diciannove''), (18, ''diciotto''), (17, ''diciassette''), (16, ''sedici''),
        (15, ''quindici''), (14, ''quattordici''), (13, ''tredici''), (12, ''dodici''),
        (11, ''undici''), (10, ''dieci''), (9, ''nove''), (8, ''otto''), (7, ''sette''),
        (6, ''sei''), (5, ''cinque''), (4, ''quattro''), (3, ''tre''), (2, ''due''), (1, ''uno''),
        (0, ''zero'')])]"

fun greedy :: "(nat \<times> string) list \<Rightarrow> nat \<Rightarrow> (nat \<times> nat \<times> string) list" where
  \<comment> \<open>Modelled from the spec: the decomposition that \<open>format-integer\<close> uses is not among
      the sources. Greedy decomposition over a table in its order: of each base as
      many as fit into what is left; the result lists count, base and letters.\<close>
  "greedy [] n = []"
| "greedy ((base, letters) # table) n =
     (n div base, base, letters) # greedy table (n mod base)"

definition int_to_roman :: "nat \<Rightarrow> string" where
  \<comment> \<open>Modelled from the spec: \<open>int_to_roman\<close> is not among the sources. Spec 6.3: roman
      numerals use the fixed map; the letters of each base are repeated as the greedy decomposition
      counts it.\<close>
  "int_to_roman n =
     concat (map (\<lambda>(count, base, letters). concat (replicate count letters))
                 (greedy ROMAN_NUMERALS_MAP n))"

definition word_of :: "(nat \<times> string) list \<Rightarrow> nat \<Rightarrow> string" where
  "word_of table n = (case map_of table n of Some w \<Rightarrow> w | None \<Rightarrow> [])"

definition words_below_hundred :: "(nat \<times> string) list \<Rightarrow> nat \<Rightarrow> string" where
  \<comment> \<open>Modelled from the spec: see \<open>int_to_words\<close>.\<close>
  "words_below_hundred table n =
     (if n < 20 \<or> n mod 10 = 0 then word_of table n
      else word_of table (n - n mod 10) @ ''-'' @ word_of table (n mod 10))"

definition words_below_thousand :: "(nat \<times> string) list \<Rightarrow> nat \<Rightarrow> string" where
  \<comment> \<open>Modelled from the spec: see \<open>int_to_words\<close>.\<close>
  "words_below_thousand table n =
     (if n < 100 then words_below_hundred table n
      else word_of table (n div 100) @ '' '' @ word_of table 100
           @ (if n mod 100 = 0 then [] else '' '' @ words_below_hundred table (n mod 100)))"

fun join_words :: "string list \<Rightarrow> string" where
  "join_words [] = []"
| "join_words [w] = w"
| "join_words (w # ws) = w @ '' '' @ join_words ws"

definition int_to_words :: "(nat \<times> string) list \<Rightarrow> nat \<Rightarrow> string" where
  \<comment> \<open>Modelled from the spec: \<open>int_to_words\<close> is not among the sources. Spec 6.3 and
      scenario 7: the cardinal words of the table of the language, for the groups of
      thousands from the highest down, each group followed by the word of its scale;
      tens and units are joined by a hyphen. For numbers below \<open>10 ^ 12\<close>.\<close>
  "int_to_words table n =
     (if n = 0 then word_of table 0
      else join_words
        (concat (map (\<lambda>scale.
                   if n div scale mod 1000 = 0 then []
                   else if scale = 1 then [words_below_thousand table (n mod 1000)]
                   else [words_below_thousand table (n div scale mod 1000), word_of table scale])
                 [10 ^ 9, 10 ^ 6, 1000, 1])))"

definition english_words :: "(nat \<times> string) list" where
  "english_words = (case map_of NUM_TO_WORD_MAPS ''en'' of Some t \<Rightarrow> t | None \<Rightarrow> [])"

definition words_table :: "string option \<Rightarrow> (nat \<times> string) list" where
  \<comment> \<open>Modelled from the spec: 6.3, unknown languages fall back to the English tables.\<close>
  "words_table lang =
     (case lang of
        None \<Rightarrow> english_words
      | Some l \<Rightarrow> (case map_of NUM_TO_WORD_MAPS l of Some t \<Rightarrow> t | None \<Rightarrow> english_words))"

function arabic :: "nat \<Rightarrow> string" where
  "arabic n =
     (if n < 10 then [char_of (48 + n)] else arabic (n div 10) @ [char_of (48 + n mod 10)])"
  by pat_completeness auto
termination
  by (relation "measure id") auto

definition format_integer :: "nat \<Rightarrow> string \<Rightarrow> string option \<Rightarrow> string" where
  \<comment> \<open>Modelled from the spec: the function \<open>format-integer\<close> is not among the sources.
      Spec 4.4 and 6.3: picture \<open>I\<close> is roman, picture \<open>w\<close> is the cardinal words of the
      language, and a picture that cannot be satisfied gives the arabic
      representation.\<close>
  "format_integer n picture lang =
     (if picture = ''I'' then int_to_roman n
      else if picture = ''w'' then int_to_words (words_table lang) n
      else arabic n)"

section \<open>The result validators of the W3C test driver\<close>

text \<open>
  \<open>execute_w3c_tests.py\<close>, class \<open>Result\<close>. A result element has a type and child
  results; \<open>validate\<close> is the method \<open><type>_validator\<close>, hyphens replaced by
  underscores. The validators that run the test expression depend on the XPath
  engine and are a parameter, \<open>leaf\<close>. A validator returns a Python object:
  \<open>None\<close>, \<open>True\<close>, \<open>False\<close>, or another object such as a match.
\<close>

datatype result = Result (result_type: string) (children: "result list")

datatype pyobject = ObjNone | ObjTrue | ObjFalse | ObjOther

datatype exn = AssertionError | AttributeError | OtherException

definition truth :: "pyobject \<Rightarrow> bool" where
  "truth v = (v = ObjTrue \<or> v = ObjOther)"

definition of_bool_obj :: "bool \<Rightarrow> pyobject" where
  "of_bool_obj b = (if b then ObjTrue else ObjFalse)"

type_synonym validator = "result \<Rightarrow> nat \<Rightarrow> exn + pyobject"

definition leaf_types :: "string list" where
  \<comment> \<open>the validators of the class that run the test expression\<close>
  "leaf_types =
     [''assert'', ''assert-count'', ''assert-deep-eq'', ''assert-empty'', ''assert-eq'',
      ''assert-false'', ''assert-serialization-error'', ''assert-string-value'',
      ''assert-true'', ''assert-type'', ''assert-xml'', ''error'', ''serialization-matches'']"

fun validate :: "validator \<Rightarrow> result \<Rightarrow> nat \<Rightarrow> exn + pyobject"
and all_of_loop :: "validator \<Rightarrow> result list \<Rightarrow> nat \<Rightarrow> bool \<Rightarrow> exn + bool"
and any_of_loop :: "validator \<Rightarrow> result list \<Rightarrow> bool \<Rightarrow> exn + bool"
and validate_each :: "validator \<Rightarrow> result list \<Rightarrow> nat \<Rightarrow> exn + unit" where
  "validate leaf (Result ty cs) verbose =
     (if ty = ''all-of'' then
        \<comment> \<open>\<open>all_of_validator\<close>, lines 416-423\<close>
        (if cs = [] then Inl AssertionError
         else (case all_of_loop leaf cs verbose True of
                 Inl e \<Rightarrow> Inl e | Inr r \<Rightarrow> Inr (of_bool_obj r)))
      else if ty = ''any-of'' then
        \<comment> \<open>\<open>any_of_validator\<close>, lines 425-436\<close>
        (if cs = [] then Inl AssertionError
         else (case any_of_loop leaf cs False of
                 Inl e \<Rightarrow> Inl e
               | Inr r \<Rightarrow>
                   if \<not> r \<and> verbose > 1 then
                     (case validate_each leaf cs verbose of
                        Inl e \<Rightarrow> Inl e | Inr u \<Rightarrow> Inr (of_bool_obj r))
                   else Inr (of_bool_obj r)))
      else if ty = ''not'' then
        \<comment> \<open>\<open>not_validator\<close>, lines 438-444\<close>
        (case cs of
           [c] \<Rightarrow>
             (case validate leaf c 1 of
                Inl e \<Rightarrow> Inl e
              | Inr v \<Rightarrow>
                  if \<not> (\<not> truth v) \<and> verbose > 1 then
                    (case validate leaf c verbose of
                       Inl e \<Rightarrow> Inl e | Inr u \<Rightarrow> Inr (of_bool_obj (\<not> truth v)))
                  else Inr (of_bool_obj (\<not> truth v)))
         | _ \<Rightarrow> Inl AssertionError)
      else if ty = ''assert-permutation'' then
        \<comment> \<open>\<open>assert_permutation_validator\<close>, lines 614-615: the body is the docstring\<close>
        Inr ObjNone
      else if ty \<in> set leaf_types then leaf (Result ty cs) verbose
      else Inl AttributeError)"
| "all_of_loop leaf [] verbose r = Inr r"
| "all_of_loop leaf (c # cs) verbose r =
     (case validate leaf c verbose of
        Inl e \<Rightarrow> Inl e
      | Inr v \<Rightarrow> all_of_loop leaf cs verbose (if \<not> truth v then False else r))"
| "any_of_loop leaf [] r = Inr r"
| "any_of_loop leaf (c # cs) r =
     (case validate leaf c 1 of
        Inl e \<Rightarrow> Inl e
      | Inr v \<Rightarrow> any_of_loop leaf cs (if truth v then True else r))"
| "validate_each leaf [] verbose = Inr ()"
| "validate_each leaf (c # cs) verbose =
     (case validate leaf c verbose of
        Inl e \<Rightarrow> Inl e
      | Inr v \<Rightarrow> validate_each leaf cs verbose)"

text \<open>\<open>TestCase.run\<close>, lines 310-314, for the result of the test case.\<close>

definition run :: "validator \<Rightarrow> result \<Rightarrow> nat \<Rightarrow> exn + pyobject" where
  "run leaf r verbose = validate leaf r verbose"

text \<open>
  \<open>main\<close>, lines 743-763: the count that a test case adds to. \<open>is True\<close> and
  \<open>is False\<close> are identity with the two booleans.
\<close>

datatype outcome = Success | Failed | Unknown | OtherFailure

definition classify :: "exn + pyobject \<Rightarrow> outcome" where
  "classify r =
     (case r of
        Inl e \<Rightarrow> OtherFailure
      | Inr v \<Rightarrow> if v = ObjTrue then Success else if v = ObjFalse then Failed else Unknown)"

section \<open>Maps and arrays as objects\<close>

text \<open>
  Whether a function changes the map or array it is given shows only where the
  objects live in a store: an object is the value at its address, and a function
  that builds a new object allocates the next address.
\<close>

type_synonym store = "pyval list"

definition deref :: "store \<Rightarrow> nat \<Rightarrow> pyval option" where
  "deref h a = (if a < length h then Some (h ! a) else None)"

definition allocate :: "store \<Rightarrow> pyval \<Rightarrow> store \<times> nat" where
  "allocate h v = (h @ [v], length h)"

definition evaluate_map_put :: "store \<Rightarrow> nat \<Rightarrow> atomic \<Rightarrow> pyval \<Rightarrow> error + store \<times> nat" where
  \<comment> \<open>Modelled from the spec: \<open>map:put\<close> is not among the sources. Spec 5: it returns a
      new map.\<close>
  "evaluate_map_put h a k v =
     (case deref h a of
        Some (PMap m) \<Rightarrow> Inr (allocate h (PMap (map_put m k v)))
      | _ \<Rightarrow> Inl XPTY0004)"

definition evaluate_map_remove :: "store \<Rightarrow> nat \<Rightarrow> atomic list \<Rightarrow> error + store \<times> nat" where
  \<comment> \<open>Modelled from the spec: \<open>map:remove\<close> is not among the sources. Spec 5: it returns
      a new map.\<close>
  "evaluate_map_remove h a ks =
     (case deref h a of
        Some (PMap m) \<Rightarrow> Inr (allocate h (PMap (map_remove m ks)))
      | _ \<Rightarrow> Inl XPTY0004)"

definition evaluate_array_append :: "store \<Rightarrow> nat \<Rightarrow> pyval \<Rightarrow> error + store \<times> nat" where
  \<comment> \<open>Modelled from the spec: \<open>array:append\<close> is not among the sources. Spec 5: it
      returns a new array.\<close>
  "evaluate_array_append h a v =
     (case deref h a of
        Some (PArray xs) \<Rightarrow> Inr (allocate h (PArray (array_append xs v)))
      | _ \<Rightarrow> Inl XPTY0004)"

section \<open>Tokens of other classes\<close>

text \<open>
  The operand tokens of the examples: a token of a class that is not among the
  sources, given by its symbol, its value, the items that its \<open>select\<close> yields and the
  value that its \<open>evaluate\<close> returns, in every context.
\<close>

definition operand_token :: "string \<Rightarrow> pyval \<Rightarrow> pyval list \<Rightarrow> pyval \<Rightarrow> token" where
  "operand_token symbol v selected evaluated =
     Token symbol ''operand'' v [] 0 0 (\<lambda>c. (selected, None)) (\<lambda>c. Inr evaluated) no_function"

definition name_token :: "string \<Rightarrow> token" where
  "name_token n = operand_token ''(name)'' (PAtom (AStr n)) [PAtom (AStr n)] (PAtom (AStr n))"

definition integer_token :: "int \<Rightarrow> token" where
  "integer_token i = operand_token ''(integer)'' (PAtom (AInt i)) [PAtom (AInt i)] (PAtom (AInt i))"

definition symbol_token :: "string \<Rightarrow> token" where
  "symbol_token symbol = operand_token symbol PNone [] PNone"

definition sequence_token :: "pyval list \<Rightarrow> token" where
  \<comment> \<open>a parenthesised expression with the given items\<close>
  "sequence_token xs = operand_token ''('' PNone xs (PList xs)"

definition lookup_token :: "token list \<Rightarrow> token" where
  \<comment> \<open>the token of \<open>?\<close> with the children that \<open>nud\<close> or \<open>led\<close> gives it\<close>
  "lookup_token ts =
     LookupOperatorToken_methods (set_items (XPathToken_init ''?'' 85 85 PNone) ts)"

definition weekdays :: "(atomic \<times> pyval) list" where
  \<comment> \<open>\<open>MAP_WEEKDAYS_DE\<close> of \<open>test_xpath31.py\<close>, lines 57-59\<close>
  "weekdays =
     [(AInt 0, PAtom (AStr ''Sonntag'')), (AInt 1, PAtom (AStr ''Montag'')),
      (AInt 2, PAtom (AStr ''Dienstag'')), (AInt 3, PAtom (AStr ''Mittwoch'')),
      (AInt 4, PAtom (AStr ''Donnerstag'')), (AInt 5, PAtom (AStr ''Freitag'')),
      (AInt 6, PAtom (AStr ''Samstag''))]"

text \<open>
  A key specifier denotes an atomic key: a name or an integer by its value, a
  parenthesised expression by the atomized value of its single item.
\<close>

definition key_denotes :: "token \<Rightarrow> xpath_context option \<Rightarrow> atomic \<Rightarrow> bool" where
  "key_denotes K ctx k =
     (if tok_symbol K = ''(name)'' \<or> tok_symbol K = ''(integer)'' then tok_value K = PAtom k
      else tok_symbol K = ''('' \<and> snd (tok_select K ctx) = None
           \<and> map data_value (fst (tok_select K ctx)) = [PAtom k])"









definition example_parser :: "string \<Rightarrow> token \<Rightarrow> token list \<Rightarrow> parser" where
  \<comment> \<open>a parser of the given version at the given current token, before the given tokens\<close>
  "example_parser v t ts =
     \<lparr>version = v, token = t,
      next_token = (case ts of [] \<Rightarrow> end_token | n # ns \<Rightarrow> n),
      tokens = (case ts of [] \<Rightarrow> [] | n # ns \<Rightarrow> ns)\<rparr>"

definition no_expression :: expression where
  "no_expression rbp p = Inl XPST0003"

text \<open>
  The members of a constructor, in words: the parser at \<open>p\<close> reads the
  comma-separated expressions \<open>es\<close>, in this order, and is left at \<open>p'\<close>, before a
  token that is not a comma.
\<close>

inductive comma_separated :: "expression \<Rightarrow> parser \<Rightarrow> token list \<Rightarrow> parser \<Rightarrow> bool"
  for expression :: expression where
  last_member:
    "expression 5 p = Inr (e, p1) \<Longrightarrow> tok_symbol (next_token p1) \<noteq> '','' \<Longrightarrow>
     comma_separated expression p [e] p1"
| next_member:
    "expression 5 p = Inr (e, p1) \<Longrightarrow> tok_symbol (next_token p1) = '','' \<Longrightarrow>
     advance p1 [] = Inr p2 \<Longrightarrow> comma_separated expression p2 es p3 \<Longrightarrow>
     comma_separated expression p (e # es) p3"

definition operand_expression :: expression where
  \<comment> \<open>Modelled from the spec: \<open>Parser.expression\<close> is not among the sources. Spec 4.2,
      for an operand (an integer literal, a name or a wildcard) followed by a token
      that does not bind tighter than \<open>rbp\<close>: the parser advances, the null denotation
      of the operand is the operand, and the loop does not go on.\<close>
  "operand_expression rbp p =
     (case advance p [] of
        Inl e \<Rightarrow> Inl e
      | Inr p1 \<Rightarrow>
          if (tok_symbol (token p1) = ''(integer)'' \<or> tok_symbol (token p1) = ''(name)''
              \<or> tok_symbol (token p1) = ''*'')
             \<and> \<not> led_applies rbp (next_token p1)
          then Inr (token p1, p1) else Inl XPST0003)"

definition call_array :: "(error + token \<times> parser) option \<Rightarrow> int \<Rightarrow> (error + pyval) option" where
  \<comment> \<open>Modelled from the spec: the postfix call \<open>A(i)\<close> is not among the sources. The
      parsed array expression is evaluated without context and the array is applied
      to the position.\<close>
  "call_array parsed i =
     (case parsed of
        None \<Rightarrow> None
      | Some (Inl e) \<Rightarrow> Some (Inl e)
      | Some (Inr (t, p)) \<Rightarrow>
          Some (case tok_evaluate t None of
                  Inl e \<Rightarrow> Inl e
                | Inr (PArray a) \<Rightarrow> array_call a (PAtom (AInt i))
                | Inr _ \<Rightarrow> Inl XPTY0004))"

definition members_1257 :: "token list" where
  "members_1257 =
     [integer_token 1, symbol_token '','', integer_token 2, symbol_token '','',
      integer_token 5, symbol_token '','', integer_token 7]"

definition square_source :: "string \<Rightarrow> parser" where
  \<comment> \<open>\<open>[ 1, 2, 5, 7 ]\<close>, the parser at the bracket\<close>
  "square_source v = example_parser v (symbol_token ''['') (members_1257 @ [symbol_token '']''])"

definition curly_source :: "string \<Rightarrow> parser" where
  \<comment> \<open>\<open>array { 1, 2, 5, 7 }\<close>, the parser at the keyword\<close>
  "curly_source v =
     example_parser v (symbol_token ''array'')
       ([symbol_token ''{''] @ members_1257 @ [symbol_token ''}''])"

definition no_occurrence :: occurrence_parser where
  "no_occurrence t p = Inr (t, p)"




definition passing_leaf :: validator where
  \<comment> \<open>validators of the test expression that all pass\<close>
  "passing_leaf r verbose = Inr ObjTrue"

text \<open>
  What a greedy decomposition leaves over once the table is used up: the decomposition
  is exact when nothing is left.
\<close>

fun remainder :: "(nat \<times> string) list \<Rightarrow> nat \<Rightarrow> nat" where
  "remainder [] n = n"
| "remainder ((base, letters) # table) n = remainder table (n mod base)"

definition example_store :: store where
  \<comment> \<open>the week map at address 0 and the array \<open>["a", "b", "c"]\<close> at address 1\<close>
  "example_store =
     [PMap weekdays, PArray [PAtom (AStr ''a''), PAtom (AStr ''b''), PAtom (AStr ''c'')]]"

section \<open>The unimplemented permutation validator\<close>

lemma all_of_loop_false: "all_of_loop leaf cs verbose False \<noteq> Inr True"
  by (induction cs) (auto split: sum.splits)

lemma all_of_loop_permutation:
  "Result ''assert-permutation'' gs \<in> set cs \<Longrightarrow> all_of_loop leaf cs verbose r \<noteq> Inr True"
proof (induction cs arbitrary: r)
  case Nil
  then show ?case by simp
next
  case (Cons c cs)
  show ?case
  proof (cases "c = Result ''assert-permutation'' gs")
    case True
    then show ?thesis by (simp add: truth_def all_of_loop_false)
  next
    case False
    with Cons.prems have "Result ''assert-permutation'' gs \<in> set cs" by simp
    then have "\<And>r. all_of_loop leaf cs verbose r \<noteq> Inr True" by (rule Cons.IH)
    then show ?thesis by (cases "validate leaf c verbose") simp_all
  qed
qed

lemma all_of_never_passes:
  assumes "Result ''assert-permutation'' gs \<in> set ds"
  shows "run leaf (Result ''all-of'' ds) verbose \<noteq> Inr ObjTrue"
proof -
  have "all_of_loop leaf ds verbose True \<noteq> Inr True"
    using assms by (rule all_of_loop_permutation)
  then show ?thesis
    by (cases "all_of_loop leaf ds verbose True") (auto simp: run_def of_bool_obj_def)
qed

text \<open>
  Claim C8, as stated, fails: the validator of \<open>assert-permutation\<close> returns \<open>None\<close>, and
  a test case that has the expectation below \<open>not\<close> passes, since \<open>not None\<close> is
  \<open>True\<close>; so does one that has it below \<open>any-of\<close> beside an alternative that passes.
\<close>

theorem permutation_expectation_counterexample:
  "run passing_leaf (Result ''not'' [Result ''assert-permutation'' []]) 1 = Inr ObjTrue
   \<and> classify (run passing_leaf (Result ''not'' [Result ''assert-permutation'' []]) 1) = Success
   \<and> run passing_leaf
        (Result ''any-of'' [Result ''assert-permutation'' [], Result ''assert-true'' []]) 1
       = Inr ObjTrue
   \<and> classify (run passing_leaf
        (Result ''any-of'' [Result ''assert-permutation'' [], Result ''assert-true'' []]) 1)
       = Success"
  by (simp add: run_def classify_def truth_def of_bool_obj_def passing_leaf_def leaf_types_def)

text \<open>
  Claim C8, amended. The validator of an \<open>assert-permutation\<close> result element performs
  no check: whatever the children of the element, the verbosity and the validators
  that run the test expression, \<open>validate\<close> returns \<open>None\<close>, never \<open>True\<close>. A test case
  whose result element is the \<open>assert-permutation\<close> element itself therefore never
  returns \<open>True\<close> from \<open>run\<close>, and the driver counts it as unknown; and a test case
  whose result element is an \<open>all-of\<close> with an \<open>assert-permutation\<close> child never
  returns \<open>True\<close> either.
\<close>

theorem assert_permutation_never_passes:
  "validate leaf (Result ''assert-permutation'' cs) verbose = Inr ObjNone
   \<and> run leaf (Result ''assert-permutation'' cs) verbose \<noteq> Inr ObjTrue
   \<and> classify (run leaf (Result ''assert-permutation'' cs) verbose) = Unknown
   \<and> (Result ''assert-permutation'' gs \<in> set ds \<longrightarrow>
        run leaf (Result ''all-of'' ds) verbose \<noteq> Inr ObjTrue
        \<and> classify (run leaf (Result ''all-of'' ds) verbose) \<noteq> Success)"
proof -
  have "classify (run leaf (Result ''all-of'' ds) verbose) \<noteq> Success"
    if "Result ''assert-permutation'' gs \<in> set ds"
    using all_of_never_passes[OF that, of leaf verbose]
    by (cases "run leaf (Result ''all-of'' ds) verbose") (auto simp: classify_def)
  then show ?thesis
    using all_of_never_passes[of gs ds leaf verbose] by (simp add: run_def classify_def)
qed

theorem assert_permutation_never_passes_witness:
  "Result ''assert-permutation'' [] \<in> set [Result ''assert-true'' [], Result ''assert-permutation'' []]
   \<and> run passing_leaf (Result ''all-of'' [Result ''assert-true'' [], Result ''assert-permutation'' []]) 1
       = Inr ObjFalse
   \<and> classify (run passing_leaf
        (Result ''all-of'' [Result ''assert-true'' [], Result ''assert-permutation'' []]) 1) = Failed
   \<and> classify (run passing_leaf
        (Result ''all-of'' [Result ''assert-true'' [], Result ''assert-permutation'' []]) 1) \<noteq> Success
   \<and> run passing_leaf (Result ''assert-permutation'' []) 1 = Inr ObjNone"
  using assert_permutation_never_passes
    [where gs = "[]" and ds = "[Result ''assert-true'' [], Result ''assert-permutation'' []]"
       and leaf = passing_leaf and verbose = 1 and cs = "[]"]
  by (simp add: run_def classify_def truth_def of_bool_obj_def passing_leaf_def leaf_types_def)

section \<open>Generators: lemmas\<close>

lemma gen_case_id:
  "(case g of (ys, None) \<Rightarrow> (ys, None) | (ys, Some e) \<Rightarrow> (ys, Some e)) = (g :: gen)"
  by (cases g) (auto split: option.splits)


lemma gen_for_all_ok:
  "\<forall>x\<in>set xs. snd (body x) = None \<Longrightarrow>
   gen_for xs body = (concat (map (\<lambda>x. fst (body x)) xs), None)"
  by (induction xs) (auto split: prod.splits option.splits)


section \<open>The lookup operator: properties\<close>

lemma unary_select:
  "length (tok_items self) = 1 \<Longrightarrow>
   LookupOperatorToken_select self (Some c) =
     lookup_item (last (tok_items self)) (Some c) (item c)"
  by (auto simp: LookupOperatorToken_select_def gen_case_id)




lemma map_key_bound:
  "tok_symbol K = ''(name)'' \<or> tok_symbol K = ''(integer)'' \<Longrightarrow> tok_value K = PAtom k \<Longrightarrow>
   map_of m k = Some v \<Longrightarrow> lookup_item K context (PMap m) = (iter_sequence v, None)"
  by (auto simp: lookup_item_def map_call_def gen_yield_def)

lemma map_key_missing:
  "tok_symbol K = ''(name)'' \<or> tok_symbol K = ''(integer)'' \<Longrightarrow> tok_value K = PAtom k \<Longrightarrow>
   map_of m k = None \<Longrightarrow> lookup_item K context (PMap m) = ([], None)"
  by (auto simp: lookup_item_def map_call_def gen_yield_def iter_sequence_def)

lemma map_key_expr:
  "tok_symbol K = ''('' \<Longrightarrow> tok_select K context = ([kv], None) \<Longrightarrow> data_value kv = PAtom k \<Longrightarrow>
   lookup_item K context (PMap m) =
     (case map_of m k of Some v \<Rightarrow> (iter_sequence v, None) | None \<Rightarrow> ([], None))"
  by (auto simp: lookup_item_def map_call_def gen_yield_def gen_bind_def iter_sequence_def
           split: option.splits)








section \<open>Lookup laws\<close>

lemma gen_bind_single: "gen_bind ([x], None) body = body x"
proof (cases "body x")
  case (Pair ys r)
  then show ?thesis by (cases r) (simp_all add: gen_bind_def)
qed

lemma lookup_item_denoted:
  assumes "key_denotes K ctx k"
  shows "lookup_item K ctx (PMap M) =
     (case map_of M k of Some v \<Rightarrow> (iter_sequence v, None) | None \<Rightarrow> ([], None))"
proof (cases "tok_symbol K = ''(name)'' \<or> tok_symbol K = ''(integer)''")
  case True
  with assms have "tok_value K = PAtom k" by (simp add: key_denotes_def)
  with True show ?thesis
    by (cases "map_of M k") (simp_all add: map_key_bound map_key_missing)
next
  case False
  with assms have sym: "tok_symbol K = ''(''" and ok: "snd (tok_select K ctx) = None"
    and keys: "map data_value (fst (tok_select K ctx)) = [PAtom k]"
    by (simp_all add: key_denotes_def)
  from keys obtain kv where kv: "fst (tok_select K ctx) = [kv]" "data_value kv = PAtom k"
    by (auto simp: map_eq_Cons_conv)
  from kv(1) ok have "tok_select K ctx = ([kv], None)"
    by (cases "tok_select K ctx") simp
  then show ?thesis using sym kv(2) by (simp add: map_key_expr)
qed

lemma select_in_map:
  "LookupOperatorToken_select (lookup_token [sequence_token [PMap M], K]) ctx =
     lookup_item K ctx (PMap M)"
  by (simp add: LookupOperatorToken_select_def lookup_token_def LookupOperatorToken_methods_def
        set_items_def XPathToken_init_def sequence_token_def operand_token_def gen_bind_single)

lemma map_of_map_put: "map_of (map_put M k v) k = Some v"
  by (simp add: map_put_def update_conv')

lemma map_of_map_remove: "k \<in> set ks \<Longrightarrow> map_of (map_remove M ks) k = None"
  by (auto simp: map_remove_def map_of_eq_None_iff)

text \<open>
  Claim C3. For a map \<open>M\<close>, an atomic key \<open>k\<close>, a key specifier that denotes \<open>k\<close> and
  a value \<open>v\<close>: if \<open>M\<close> binds \<open>k\<close> to \<open>v\<close>, the lookup \<open>M?k\<close> yields the items of \<open>v\<close>;
  the lookup \<open>map:put(M, k, v)?k\<close> yields the items of \<open>v\<close>; and
  \<open>map:remove(map:put(M, k, v), k)\<close> has no binding for \<open>k\<close>, so that the lookup of
  \<open>k\<close> in it yields nothing.
\<close>

theorem lookup_laws:
  "key_denotes K ctx k \<longrightarrow>
     (map_of M k = Some v \<longrightarrow>
        LookupOperatorToken_select (lookup_token [sequence_token [PMap M], K]) ctx
          = (iter_sequence v, None))
     \<and> LookupOperatorToken_select (lookup_token [sequence_token [PMap (map_put M k v)], K]) ctx
          = (iter_sequence v, None)
     \<and> map_of (map_remove (map_put M k v) [k]) k = None
     \<and> LookupOperatorToken_select
          (lookup_token [sequence_token [PMap (map_remove (map_put M k v) [k])], K]) ctx
          = ([], None)"
  by (simp add: select_in_map lookup_item_denoted map_of_map_put map_of_map_remove)

theorem lookup_laws_witness:
  "key_denotes (integer_token 6) None (AInt 6)
   \<and> map_of weekdays (AInt 6) = Some (PAtom (AStr ''Samstag''))
   \<and> LookupOperatorToken_select (lookup_token [sequence_token [PMap weekdays], integer_token 6]) None
       = ([PAtom (AStr ''Samstag'')], None)
   \<and> map_put weekdays (AInt 6) (PAtom (AStr ''Sonnabend'')) =
       [(AInt 0, PAtom (AStr ''Sonntag'')), (AInt 1, PAtom (AStr ''Montag'')),
        (AInt 2, PAtom (AStr ''Dienstag'')), (AInt 3, PAtom (AStr ''Mittwoch'')),
        (AInt 4, PAtom (AStr ''Donnerstag'')), (AInt 5, PAtom (AStr ''Freitag'')),
        (AInt 6, PAtom (AStr ''Sonnabend''))]
   \<and> LookupOperatorToken_select
         (lookup_token [sequence_token [PMap (map_put weekdays (AInt 6) (PAtom (AStr ''Sonnabend'')))],
                        integer_token 6]) None
       = ([PAtom (AStr ''Sonnabend'')], None)
   \<and> map_remove (map_put weekdays (AInt 6) (PAtom (AStr ''Sonnabend''))) [AInt 6] =
       [(AInt 0, PAtom (AStr ''Sonntag'')), (AInt 1, PAtom (AStr ''Montag'')),
        (AInt 2, PAtom (AStr ''Dienstag'')), (AInt 3, PAtom (AStr ''Mittwoch'')),
        (AInt 4, PAtom (AStr ''Donnerstag'')), (AInt 5, PAtom (AStr ''Freitag''))]
   \<and> LookupOperatorToken_select
         (lookup_token
            [sequence_token
               [PMap (map_remove (map_put weekdays (AInt 6) (PAtom (AStr ''Sonnabend''))) [AInt 6])],
             integer_token 6]) None
       = ([], None)"
  using lookup_laws [where K = "integer_token 6" and ctx = None and k = "AInt 6" and M = weekdays
                       and v = "PAtom (AStr ''Samstag'')"]
        lookup_laws [where K = "integer_token 6" and ctx = None and k = "AInt 6" and M = weekdays
                       and v = "PAtom (AStr ''Sonnabend'')"]
  by (simp add: key_denotes_def integer_token_def operand_token_def weekdays_def map_put_def
        map_remove_def iter_sequence_def)

section \<open>The arrow operator: properties\<close>


lemma arrow_arguments_item:
  "3 \<le> length (tok_items self) \<Longrightarrow> tok_evaluate (tok_items self ! 0) ctx = Inr x \<Longrightarrow>
   tok_items (tok_items self ! 2) \<noteq> [] \<Longrightarrow> tok_evaluate (tok_items self ! 2) ctx = Inr v \<Longrightarrow>
   (\<forall>ys. v \<noteq> PList ys) \<Longrightarrow> arrow_arguments self ctx = Inr [x, v]"
  by (cases v) (simp_all add: arrow_arguments_def)

lemma arrow_arguments_none:
  "3 \<le> length (tok_items self) \<Longrightarrow> tok_evaluate (tok_items self ! 0) ctx = Inr x \<Longrightarrow>
   tok_items (tok_items self ! 2) = [] \<Longrightarrow> arrow_arguments self ctx = Inr [x]"
  by (simp add: arrow_arguments_def)









section \<open>The question mark as placeholder\<close>

lemma init_after_opening:
  "tok_symbol (token p) = ''('' \<or> tok_symbol (token p) = '','' \<Longrightarrow>
   tok_lbp (LookupOperatorToken_init p v) = 0 \<and> tok_rbp (LookupOperatorToken_init p v) = 0"
  by (auto simp: LookupOperatorToken_init_def LookupOperatorToken_methods_def XPathToken_init_def Let_def)

lemma init_elsewhere:
  "tok_symbol (token p) \<noteq> ''('' \<Longrightarrow> tok_symbol (token p) \<noteq> '','' \<Longrightarrow>
   tok_lbp (LookupOperatorToken_init p v) = 85 \<and> tok_rbp (LookupOperatorToken_init p v) = 85"
  by (auto simp: LookupOperatorToken_init_def LookupOperatorToken_methods_def XPathToken_init_def Let_def)

lemma init_fields:
  "tok_items (LookupOperatorToken_init p v) = [] \<and> tok_value (LookupOperatorToken_init p v) = v
   \<and> tok_symbol (LookupOperatorToken_init p v) = ''?''"
  by (auto simp: LookupOperatorToken_init_def LookupOperatorToken_methods_def XPathToken_init_def Let_def)

lemma nud_placeholder:
  "tok_symbol (next_token q) \<notin> {''(name)'', ''(integer)'', ''('', ''*''} \<Longrightarrow>
   LookupOperatorToken_nud expression self q = Inr (self, q)"
  by (simp add: LookupOperatorToken_nud_def expected_next_def)

lemma placeholder_value:
  "tok_items self = [] \<Longrightarrow>
   LookupOperatorToken_evaluate self ctx = Inr (tok_value self)
   \<and> LookupOperatorToken_select self ctx = (iter_sequence (tok_value self), None)"
  by (simp add: LookupOperatorToken_evaluate_def LookupOperatorToken_select_def gen_yield_def)

lemma nud_lookup:
  assumes "tok_symbol (next_token q) \<in> {''(name)'', ''(integer)'', ''('', ''*''}"
    and "expression 85 q = Inr (k, q1)"
  shows "LookupOperatorToken_nud expression self q =
           Inr (LookupOperatorToken_methods (set_items self [k]), q1)"
  using assms by (auto simp: LookupOperatorToken_nud_def expected_next_def)

lemma methods_fields:
  "tok_items (LookupOperatorToken_methods (set_items self ks)) = ks
   \<and> tok_lbp (LookupOperatorToken_methods (set_items self ks)) = tok_lbp self
   \<and> tok_rbp (LookupOperatorToken_methods (set_items self ks)) = tok_rbp self
   \<and> tok_select (LookupOperatorToken_methods (set_items self ks))
       = LookupOperatorToken_select (set_items self ks)"
  by (simp add: LookupOperatorToken_methods_def set_items_def)

lemma select_methods:
  "LookupOperatorToken_select (LookupOperatorToken_methods t) ctx = LookupOperatorToken_select t ctx"
  by (cases ctx) (simp_all add: LookupOperatorToken_select_def LookupOperatorToken_methods_def)

text \<open>
  Claim C10, as stated, fails: in \<open>(?a)\<close> the \<open>?\<close> token is constructed while the
  current token is \<open>(\<close> and has binding powers zero, and yet it is the lookup
  operator: the next token is a name, so \<open>nud\<close> gives the token the key \<open>a\<close> as its
  child, and the token looks \<open>a\<close> up in the context item.
\<close>

theorem placeholder_counterexample:
  "tok_symbol (token (example_parser ''3.1'' (symbol_token ''('') [])) = ''(''
   \<and> tok_lbp (LookupOperatorToken_init (example_parser ''3.1'' (symbol_token ''('') []) PNone) = 0
   \<and> tok_rbp (LookupOperatorToken_init (example_parser ''3.1'' (symbol_token ''('') []) PNone) = 0
   \<and> (case LookupOperatorToken_nud operand_expression
           (LookupOperatorToken_init (example_parser ''3.1'' (symbol_token ''('') []) PNone)
           (example_parser ''3.1'' (symbol_token ''?'') [name_token ''a'', symbol_token '')'']) of
         Inl e \<Rightarrow> False
       | Inr (t, q') \<Rightarrow>
           map tok_value (tok_items t) = [PAtom (AStr ''a'')]
           \<and> tok_symbol (next_token q') = '')''
           \<and> LookupOperatorToken_evaluate t
                (Some \<lparr>item = PMap [(AStr ''a'', PAtom (AInt 1))]\<rparr>)
               = Inr (PList [PAtom (AInt 1)])
           \<and> tok_select t (Some \<lparr>item = PMap [(AStr ''a'', PAtom (AInt 1))]\<rparr>)
               = ([PAtom (AInt 1)], None))"
  by (simp add: LookupOperatorToken_init_def LookupOperatorToken_methods_def XPathToken_init_def
        LookupOperatorToken_nud_def expected_next_def example_parser_def operand_expression_def
        advance_def led_applies_def set_items_def Let_def
        symbol_token_def name_token_def operand_token_def end_token_def
        LookupOperatorToken_evaluate_def LookupOperatorToken_select_def lookup_item_def
        map_call_def gen_yield_def gen_list_def iter_sequence_def)

text \<open>
  Claim C10, amended. A \<open>?\<close> token constructed while the current token of the parser
  is \<open>(\<close> or \<open>,\<close> has left and right binding power zero, so that no
  \<open>expression(rbp)\<close> goes on to its left denotation: it is never the binary lookup
  operator. In expression-start position, when the next token is not a name, an
  integer, \<open>(\<close> or \<open>*\<close>, \<open>nud\<close> catches the syntax error and returns the token
  itself, without children and with the parser unchanged, an argument placeholder;
  \<open>evaluate\<close> of the childless token returns the value it stores, \<open>None\<close> for a token
  constructed without a value, and \<open>select\<close> then yields nothing. When the next token
  is a name, an integer, \<open>(\<close> or \<open>*\<close>, \<open>nud\<close> makes the token the unary lookup
  operator with the parsed key as its child, whatever its binding powers.
\<close>

theorem question_mark_token:
  "((tok_symbol (token p) = ''('' \<or> tok_symbol (token p) = '','') \<longrightarrow>
      tok_lbp (LookupOperatorToken_init p v) = 0 \<and> tok_rbp (LookupOperatorToken_init p v) = 0
      \<and> (\<forall>rbp. \<not> led_applies rbp (LookupOperatorToken_init p v)))
   \<and> (tok_symbol (next_token q) \<notin> {''(name)'', ''(integer)'', ''('', ''*''} \<longrightarrow>
      LookupOperatorToken_nud expression (LookupOperatorToken_init p v) q
        = Inr (LookupOperatorToken_init p v, q)
      \<and> tok_items (LookupOperatorToken_init p v) = []
      \<and> LookupOperatorToken_evaluate (LookupOperatorToken_init p v) ctx = Inr v
      \<and> LookupOperatorToken_evaluate (LookupOperatorToken_init p PNone) ctx = Inr PNone
      \<and> LookupOperatorToken_select (LookupOperatorToken_init p PNone) ctx = ([], None))
   \<and> (tok_symbol (next_token r) \<in> {''(name)'', ''(integer)'', ''('', ''*''}
       \<and> expression 85 r = Inr (k, r1) \<longrightarrow>
      (\<exists>t. LookupOperatorToken_nud expression (LookupOperatorToken_init p v) r = Inr (t, r1)
           \<and> tok_items t = [k]
           \<and> tok_lbp t = tok_lbp (LookupOperatorToken_init p v)
           \<and> LookupOperatorToken_select t (Some c) = lookup_item k (Some c) (item c)
           \<and> tok_select t (Some c) = lookup_item k (Some c) (item c)))"
proof (intro conjI impI)
  show "tok_lbp (LookupOperatorToken_init p v) = 0"
    and "tok_rbp (LookupOperatorToken_init p v) = 0"
    and "\<forall>rbp. \<not> led_applies rbp (LookupOperatorToken_init p v)"
    if "tok_symbol (token p) = ''('' \<or> tok_symbol (token p) = '',''"
    using init_after_opening[OF that, of v] by (simp_all add: led_applies_def)
  show "LookupOperatorToken_nud expression (LookupOperatorToken_init p v) q
        = Inr (LookupOperatorToken_init p v, q)"
    if "tok_symbol (next_token q) \<notin> {''(name)'', ''(integer)'', ''('', ''*''}"
    using that by (rule nud_placeholder)
  show "tok_items (LookupOperatorToken_init p v) = []"
    using init_fields[of p v] by simp
  show "LookupOperatorToken_evaluate (LookupOperatorToken_init p v) ctx = Inr v"
    using init_fields[of p v] placeholder_value[of "LookupOperatorToken_init p v" ctx] by simp
  show "LookupOperatorToken_evaluate (LookupOperatorToken_init p PNone) ctx = Inr PNone"
    using init_fields[of p PNone] placeholder_value[of "LookupOperatorToken_init p PNone" ctx]
    by simp
  show "LookupOperatorToken_select (LookupOperatorToken_init p PNone) ctx = ([], None)"
    using init_fields[of p PNone] placeholder_value[of "LookupOperatorToken_init p PNone" ctx]
    by (simp add: iter_sequence_def)
  show "\<exists>t. LookupOperatorToken_nud expression (LookupOperatorToken_init p v) r = Inr (t, r1)
           \<and> tok_items t = [k]
           \<and> tok_lbp t = tok_lbp (LookupOperatorToken_init p v)
           \<and> LookupOperatorToken_select t (Some c) = lookup_item k (Some c) (item c)
           \<and> tok_select t (Some c) = lookup_item k (Some c) (item c)"
    if "tok_symbol (next_token r) \<in> {''(name)'', ''(integer)'', ''('', ''*''}
       \<and> expression 85 r = Inr (k, r1)"
  proof -
    let ?self = "LookupOperatorToken_init p v"
    let ?t = "LookupOperatorToken_methods (set_items ?self [k])"
    from that have "LookupOperatorToken_nud expression ?self r = Inr (?t, r1)"
      by (intro nud_lookup) auto
    moreover have "LookupOperatorToken_select (set_items ?self [k]) (Some c)
        = lookup_item k (Some c) (item c)"
      using unary_select[of "set_items ?self [k]" c] by (simp add: set_items_def)
    ultimately show ?thesis
      using methods_fields[of ?self "[k]"] by (auto simp: select_methods)
  qed
qed

theorem question_mark_token_witness:
  "tok_symbol (token (example_parser ''3.1'' (symbol_token ''('') [symbol_token '','', integer_token 1]))
     = ''(''
   \<and> tok_lbp (LookupOperatorToken_init
        (example_parser ''3.1'' (symbol_token ''('') [symbol_token '','', integer_token 1]) PNone) = 0
   \<and> tok_rbp (LookupOperatorToken_init
        (example_parser ''3.1'' (symbol_token ''('') [symbol_token '','', integer_token 1]) PNone) = 0
   \<and> \<not> led_applies 0 (LookupOperatorToken_init
        (example_parser ''3.1'' (symbol_token ''('') [symbol_token '','', integer_token 1]) PNone)
   \<and> tok_symbol (next_token
        (example_parser ''3.1'' (symbol_token ''?'') [symbol_token '','', integer_token 1])) = '',''
   \<and> (case LookupOperatorToken_nud operand_expression
           (LookupOperatorToken_init
              (example_parser ''3.1'' (symbol_token ''('') [symbol_token '','', integer_token 1]) PNone)
           (example_parser ''3.1'' (symbol_token ''?'') [symbol_token '','', integer_token 1]) of
         Inl e \<Rightarrow> False
       | Inr (t, p') \<Rightarrow> tok_items t = [] \<and> tok_symbol t = ''?'' \<and> tok_value t = PNone
                       \<and> tok_symbol (next_token p') = '','')
   \<and> LookupOperatorToken_evaluate (LookupOperatorToken_init
        (example_parser ''3.1'' (symbol_token ''('') [symbol_token '','', integer_token 1]) PNone) None
       = Inr PNone
   \<and> LookupOperatorToken_select (LookupOperatorToken_init
        (example_parser ''3.1'' (symbol_token ''('') [symbol_token '','', integer_token 1]) PNone) None
       = ([], None)
   \<and> tok_symbol (next_token
        (example_parser ''3.1'' (symbol_token ''?'') [name_token ''a'', symbol_token '')''])) = ''(name)''
   \<and> operand_expression 85
        (example_parser ''3.1'' (symbol_token ''?'') [name_token ''a'', symbol_token '')''])
       = Inr (name_token ''a'', example_parser ''3.1'' (name_token ''a'') [symbol_token '')''])
   \<and> (case LookupOperatorToken_nud operand_expression
           (LookupOperatorToken_init
              (example_parser ''3.1'' (symbol_token ''('') [symbol_token '','', integer_token 1]) PNone)
           (example_parser ''3.1'' (symbol_token ''?'') [name_token ''a'', symbol_token '')'']) of
         Inl e \<Rightarrow> False
       | Inr (t, p') \<Rightarrow>
           map tok_value (tok_items t) = [PAtom (AStr ''a'')] \<and> tok_lbp t = 0
           \<and> LookupOperatorToken_select t (Some \<lparr>item = PMap [(AStr ''a'', PAtom (AInt 1))]\<rparr>)
               = ([PAtom (AInt 1)], None))"
  using question_mark_token
    [where p = "example_parser ''3.1'' (symbol_token ''('') [symbol_token '','', integer_token 1]"
       and v = PNone
       and q = "example_parser ''3.1'' (symbol_token ''?'') [symbol_token '','', integer_token 1]"
       and r = "example_parser ''3.1'' (symbol_token ''?'') [name_token ''a'', symbol_token '')'']"
       and k = "name_token ''a''"
       and ?r1.0 = "example_parser ''3.1'' (name_token ''a'') [symbol_token '')'']"
       and c = "\<lparr>item = PMap [(AStr ''a'', PAtom (AInt 1))]\<rparr>"
       and expression = operand_expression and ctx = None]
    init_fields
    [of "example_parser ''3.1'' (symbol_token ''('') [symbol_token '','', integer_token 1]" PNone]
  by (simp add: LookupOperatorToken_init_def LookupOperatorToken_methods_def XPathToken_init_def
        LookupOperatorToken_nud_def expected_next_def example_parser_def operand_expression_def
        advance_def led_applies_def set_items_def Let_def
        symbol_token_def name_token_def integer_token_def operand_token_def end_token_def
        LookupOperatorToken_evaluate_def LookupOperatorToken_select_def lookup_item_def
        map_call_def gen_yield_def gen_list_def iter_sequence_def)

section \<open>The square array constructor\<close>

lemma array_members_run:
  "comma_separated expression p es p1 \<Longrightarrow> length es \<le> fuel \<Longrightarrow>
   array_members fuel expression p acc = Some (Inr (acc @ es, p1))"
proof (induction arbitrary: fuel acc rule: comma_separated.induct)
  case (last_member p e p1)
  then obtain n where "fuel = Suc n" by (cases fuel) auto
  with last_member show ?case by simp
next
  case (next_member p e p1 p2 es p3)
  then obtain n where n: "fuel = Suc n" "length es \<le> n" by (cases fuel) auto
  with next_member.hyps next_member.IH[of n "acc @ [e]"] show ?case by simp
qed

lemma square_old_version:
  "version p < ''3.1'' \<Longrightarrow>
   nud_square_array_constructor fuel expression self p = Some (Inl XPST0003)"
  by (simp add: nud_square_array_constructor_def)

lemma advance_expected:
  "tok_symbol (next_token p) = s \<Longrightarrow> \<exists>p'. advance p [s] = Inr p' \<and> token p' = next_token p"
  by (simp add: advance_def)

lemma square_members:
  assumes "\<not> version p < ''3.1''" and "comma_separated expression p es p1"
    and "tok_symbol (next_token p) \<noteq> '']''" and "tok_symbol (next_token p) \<noteq> ''(end)''"
    and "tok_symbol (next_token p1) = '']''" and "length es \<le> fuel"
  shows "\<exists>p2. advance p1 ['']''] = Inr p2 \<and>
     nud_square_array_constructor fuel expression self p = Some (Inr (XPathArray ''['' es, p2))"
proof -
  from assms(5) obtain p2 where p2: "advance p1 ['']''] = Inr p2"
    using advance_expected by blast
  have "array_members fuel expression p [] = Some (Inr (es, p1))"
    using array_members_run[OF assms(2) assms(6), of "[]"] by simp
  with assms(1,3,4) p2 show ?thesis
    by (simp add: nud_square_array_constructor_def)
qed

lemma square_empty:
  assumes "\<not> version p < ''3.1''" and "tok_symbol (next_token p) = '']''"
  shows "\<exists>p2. advance p ['']''] = Inr p2 \<and>
     nud_square_array_constructor fuel expression self p = Some (Inr (XPathArray ''['' [], p2))"
proof -
  from assms(2) obtain p2 where p2: "advance p ['']''] = Inr p2"
    using advance_expected by blast
  with assms show ?thesis
    by (simp add: nud_square_array_constructor_def)
qed

lemma XPathArray_items: "tok_items (XPathArray s es) = es \<and> tok_symbol (XPathArray s es) = s"
  by (simp add: XPathArray_def Let_def)

lemma square_parse:
  "nud_square_array_constructor 4 operand_expression (symbol_token ''['') (square_source ''3.1'')
   = Some (Inr (XPathArray ''['' [integer_token 1, integer_token 2, integer_token 5, integer_token 7],
                example_parser ''3.1'' (symbol_token '']'') []))"
  by (simp add: nud_square_array_constructor_def square_source_def members_1257_def
        example_parser_def operand_expression_def advance_def led_applies_def
        symbol_token_def integer_token_def operand_token_def end_token_def numeral_eq_Suc)


lemma advance_example: "advance (example_parser v t (n # ns)) [] = Inr (example_parser v n ns)"
  by (cases ns) (simp_all add: advance_def example_parser_def)

lemma operand_example:
  "tok_symbol n = ''(integer)'' \<Longrightarrow> tok_lbp (case ns of [] \<Rightarrow> end_token | x # xs \<Rightarrow> x) \<le> rbp \<Longrightarrow>
   operand_expression rbp (example_parser v t (n # ns)) = Inr (n, example_parser v n ns)"
  by (simp add: operand_expression_def advance_example led_applies_def)
     (simp add: example_parser_def)

lemma next_example [simp]:
  "next_token (example_parser v t (n # ns)) = n"
  by (simp add: example_parser_def)

lemma comma_separated_1257:
  "c \<noteq> '','' \<Longrightarrow>
   comma_separated operand_expression (example_parser v t (members_1257 @ [symbol_token c]))
     [integer_token 1, integer_token 2, integer_token 5, integer_token 7]
     (example_parser v (integer_token 7) [symbol_token c])"
  unfolding members_1257_def append_Cons append_Nil
  apply (rule next_member)
     apply (rule operand_example; simp add: integer_token_def symbol_token_def operand_token_def)
    apply (simp add: symbol_token_def operand_token_def)
   apply (rule advance_example)
  apply (rule next_member)
     apply (rule operand_example; simp add: integer_token_def symbol_token_def operand_token_def)
    apply (simp add: symbol_token_def operand_token_def)
   apply (rule advance_example)
  apply (rule next_member)
     apply (rule operand_example; simp add: integer_token_def symbol_token_def operand_token_def)
    apply (simp add: symbol_token_def operand_token_def)
   apply (rule advance_example)
  apply (rule last_member)
   apply (rule operand_example; simp add: integer_token_def symbol_token_def operand_token_def)
  apply (simp add: symbol_token_def operand_token_def)
  done

lemma curly_parse:
  "nud_sequence_type_or_curly_array_constructor operand_expression no_occurrence
     (XPathArray_nud 4 operand_expression) (symbol_token ''array'') (curly_source ''3.1'')
   = Some (Inr (XPathArray ''array''
                  [integer_token 1, integer_token 2, integer_token 5, integer_token 7],
                \<lparr>version = ''3.1'',
                 token = XPathArray ''array''
                  [integer_token 1, integer_token 2, integer_token 5, integer_token 7],
                 next_token = end_token, tokens = []\<rparr>))"
  by (simp add: nud_sequence_type_or_curly_array_constructor_def XPathArray_nud_def
        curly_source_def members_1257_def
        example_parser_def operand_expression_def advance_def led_applies_def
        symbol_token_def integer_token_def operand_token_def end_token_def numeral_eq_Suc)

lemma evaluate_1257:
  "tok_evaluate (XPathArray s [integer_token 1, integer_token 2, integer_token 5, integer_token 7]) None
   = Inr (PArray [PAtom (AInt 1), PAtom (AInt 2), PAtom (AInt 5), PAtom (AInt 7)])"
  by (simp add: XPathArray_def XPathArray_evaluate_def integer_token_def operand_token_def
        iter_sequence_def)

text \<open>
  Claim C5. The null denotation of \<open>[\<close> raises the static syntax error when the
  version of the parser is below 3.1, whatever follows; the code compares the version
  strings, which orders 1.0, 2.0 and 3.0 below 3.1. On a well-formed constructor, that
  is comma-separated expressions \<open>e1, ..., en\<close> followed by \<open>]\<close>, or \<open>]\<close> at once, it
  raises the syntax error if and only if the version is below 3.1, and otherwise
  returns (given fuel for \<open>n\<close> iterations of the loop) the array token with symbol
  \<open>[\<close> whose children are \<open>e1, ..., en\<close> in order, the parser having advanced past the
  bracket. Both \<open>[ 1, 2, 5, 7 ](4)\<close> and \<open>array { 1, 2, 5, 7 }(4)\<close>, parsed by a 3.1
  parser and evaluated, give the integer 7.
\<close>

theorem square_array_constructor:
  "(version p < ''3.1'' \<longrightarrow>
      nud_square_array_constructor fuel expression self p = Some (Inl XPST0003))
   \<and> (\<not> version q < ''3.1'' \<and> tok_symbol (next_token q) = '']'' \<longrightarrow>
      (\<exists>q2. advance q ['']''] = Inr q2 \<and>
         nud_square_array_constructor fuel expression self q
           = Some (Inr (XPathArray ''['' [], q2))))
   \<and> (comma_separated expression r es r1
       \<and> tok_symbol (next_token r) \<noteq> '']'' \<and> tok_symbol (next_token r) \<noteq> ''(end)''
       \<and> tok_symbol (next_token r1) = '']'' \<and> length es \<le> fuel \<longrightarrow>
      (nud_square_array_constructor fuel expression self r = Some (Inl XPST0003))
        = (version r < ''3.1'')
      \<and> (\<not> version r < ''3.1'' \<longrightarrow>
           (\<exists>r2. advance r1 ['']''] = Inr r2 \<and>
              nud_square_array_constructor fuel expression self r
                = Some (Inr (XPathArray ''['' es, r2)))
           \<and> tok_items (XPathArray ''['' es) = es))
   \<and> ''1.0'' < ''3.1'' \<and> ''2.0'' < ''3.1'' \<and> ''3.0'' < ''3.1'' \<and> \<not> ''3.1'' < ''3.1''
   \<and> call_array (nud_square_array_constructor 4 operand_expression (symbol_token ''['')
                    (square_source ''3.1'')) 4
       = Some (Inr (PAtom (AInt 7)))
   \<and> call_array (nud_sequence_type_or_curly_array_constructor operand_expression no_occurrence
                    (XPathArray_nud 4 operand_expression) (symbol_token ''array'')
                    (curly_source ''3.1'')) 4
       = Some (Inr (PAtom (AInt 7)))"
proof (intro conjI impI)
  show "nud_square_array_constructor fuel expression self p = Some (Inl XPST0003)"
    if "version p < ''3.1''"
    using that by (rule square_old_version)
  show "\<exists>q2. advance q ['']''] = Inr q2 \<and>
         nud_square_array_constructor fuel expression self q
           = Some (Inr (XPathArray ''['' [], q2))"
    if "\<not> version q < ''3.1'' \<and> tok_symbol (next_token q) = '']''"
    using that by (intro square_empty) auto
  have new: "\<exists>r2. advance r1 ['']''] = Inr r2 \<and>
              nud_square_array_constructor fuel expression self r
                = Some (Inr (XPathArray ''['' es, r2))"
    if "comma_separated expression r es r1
       \<and> tok_symbol (next_token r) \<noteq> '']'' \<and> tok_symbol (next_token r) \<noteq> ''(end)''
       \<and> tok_symbol (next_token r1) = '']'' \<and> length es \<le> fuel"
      and "\<not> version r < ''3.1''"
    using that by (intro square_members) auto
  show "(nud_square_array_constructor fuel expression self r = Some (Inl XPST0003))
        = (version r < ''3.1'')"
    if "comma_separated expression r es r1
       \<and> tok_symbol (next_token r) \<noteq> '']'' \<and> tok_symbol (next_token r) \<noteq> ''(end)''
       \<and> tok_symbol (next_token r1) = '']'' \<and> length es \<le> fuel"
    using new[OF that] square_old_version[of r fuel expression self]
    by (cases "version r < ''3.1''") auto
  show "\<exists>r2. advance r1 ['']''] = Inr r2 \<and>
              nud_square_array_constructor fuel expression self r
                = Some (Inr (XPathArray ''['' es, r2))"
    if "comma_separated expression r es r1
       \<and> tok_symbol (next_token r) \<noteq> '']'' \<and> tok_symbol (next_token r) \<noteq> ''(end)''
       \<and> tok_symbol (next_token r1) = '']'' \<and> length es \<le> fuel"
      and "\<not> version r < ''3.1''"
    using that by (rule new)
  show "tok_items (XPathArray ''['' es) = es"
    by (simp add: XPathArray_items)
  show "call_array (nud_square_array_constructor 4 operand_expression (symbol_token ''['')
                    (square_source ''3.1'')) 4
       = Some (Inr (PAtom (AInt 7)))"
    by (simp add: square_parse call_array_def evaluate_1257 array_call_def)
  show "call_array (nud_sequence_type_or_curly_array_constructor operand_expression no_occurrence
                    (XPathArray_nud 4 operand_expression) (symbol_token ''array'')
                    (curly_source ''3.1'')) 4
       = Some (Inr (PAtom (AInt 7)))"
    by (simp add: curly_parse call_array_def evaluate_1257 array_call_def)
qed simp_all

theorem square_array_constructor_witness:
  "version (square_source ''3.0'') < ''3.1''
   \<and> nud_square_array_constructor 4 operand_expression (symbol_token ''['') (square_source ''3.0'')
       = Some (Inl XPST0003)
   \<and> \<not> version (example_parser ''3.1'' (symbol_token ''['') [symbol_token '']'']) < ''3.1''
   \<and> nud_square_array_constructor 4 operand_expression (symbol_token ''['')
         (example_parser ''3.1'' (symbol_token ''['') [symbol_token '']''])
       = Some (Inr (XPathArray ''['' [], example_parser ''3.1'' (symbol_token '']'') []))
   \<and> comma_separated operand_expression (square_source ''3.1'')
         [integer_token 1, integer_token 2, integer_token 5, integer_token 7]
         (example_parser ''3.1'' (integer_token 7) [symbol_token '']''])
   \<and> \<not> version (square_source ''3.1'') < ''3.1''
   \<and> nud_square_array_constructor 4 operand_expression (symbol_token ''['') (square_source ''3.1'')
       = Some (Inr (XPathArray ''['' [integer_token 1, integer_token 2, integer_token 5,
                                       integer_token 7],
                    example_parser ''3.1'' (symbol_token '']'') []))
   \<and> nud_square_array_constructor 4 operand_expression (symbol_token ''['') (square_source ''3.1'')
       \<noteq> Some (Inl XPST0003)"
proof -
  note T = square_array_constructor
    [where p = "square_source ''3.0''" and fuel = 4 and expression = operand_expression
       and self = "symbol_token ''[''"
       and q = "example_parser ''3.1'' (symbol_token ''['') [symbol_token '']'']"
       and r = "square_source ''3.1''"
       and es = "[integer_token 1, integer_token 2, integer_token 5, integer_token 7]"
       and ?r1.0 = "example_parser ''3.1'' (integer_token 7) [symbol_token '']'']"]
  have old: "version (square_source ''3.0'') < ''3.1''"
    by (simp add: square_source_def example_parser_def)
  have new: "\<not> version (example_parser ''3.1'' (symbol_token ''['') [symbol_token '']'']) < ''3.1''"
    "\<not> version (square_source ''3.1'') < ''3.1''"
    by (simp_all add: square_source_def example_parser_def)
  have closing: "tok_symbol (next_token
      (example_parser ''3.1'' (symbol_token ''['') [symbol_token '']''])) = '']''"
    by (simp add: symbol_token_def operand_token_def)
  have adv1: "advance (example_parser ''3.1'' (symbol_token ''['') [symbol_token '']'']) ['']'']
      = Inr (example_parser ''3.1'' (symbol_token '']'') [])"
    by (simp add: advance_def example_parser_def symbol_token_def operand_token_def)
  have adv2: "advance (example_parser ''3.1'' (integer_token 7) [symbol_token '']'']) ['']'']
      = Inr (example_parser ''3.1'' (symbol_token '']'') [])"
    by (simp add: advance_def example_parser_def symbol_token_def operand_token_def)
  have run: "comma_separated operand_expression (square_source ''3.1'')
         [integer_token 1, integer_token 2, integer_token 5, integer_token 7]
         (example_parser ''3.1'' (integer_token 7) [symbol_token '']''])"
    unfolding square_source_def by (rule comma_separated_1257) simp
  have shape: "tok_symbol (next_token (square_source ''3.1'')) \<noteq> '']''"
    "tok_symbol (next_token (square_source ''3.1'')) \<noteq> ''(end)''"
    "tok_symbol (next_token (example_parser ''3.1'' (integer_token 7) [symbol_token '']''])) = '']''"
    "length [integer_token 1, integer_token 2, integer_token 5, integer_token 7] \<le> (4::nat)"
    by (simp_all add: square_source_def members_1257_def integer_token_def symbol_token_def
          operand_token_def)
  from T old have r1: "nud_square_array_constructor 4 operand_expression (symbol_token ''['')
      (square_source ''3.0'') = Some (Inl XPST0003)"
    by blast
  from T new(1) closing adv1 have r2: "nud_square_array_constructor 4 operand_expression
      (symbol_token ''['') (example_parser ''3.1'' (symbol_token ''['') [symbol_token '']''])
       = Some (Inr (XPathArray ''['' [], example_parser ''3.1'' (symbol_token '']'') []))"
    by auto
  from T run shape new(2) adv2 have r3: "nud_square_array_constructor 4 operand_expression
      (symbol_token ''['') (square_source ''3.1'')
       = Some (Inr (XPathArray ''['' [integer_token 1, integer_token 2, integer_token 5,
                                       integer_token 7],
                    example_parser ''3.1'' (symbol_token '']'') []))"
    by auto
  from r3 have r4: "nud_square_array_constructor 4 operand_expression (symbol_token ''['')
      (square_source ''3.1'') \<noteq> Some (Inl XPST0003)"
    by simp
  from old r1 new r2 run r3 r4 show ?thesis by blast
qed

section \<open>The keyword \<open>map\<close>\<close>

























section \<open>Roman numerals and cardinal words\<close>

lemma greedy_sum:
  "sum_list (map (\<lambda>(count, base, letters). count * base) (greedy table n)) + remainder table n = n"
proof (induction table arbitrary: n)
  case Nil
  then show ?case by simp
next
  case (Cons entry table)
  obtain base letters where e: "entry = (base, letters)" by (cases entry)
  have "sum_list (map (\<lambda>(count, base, letters). count * base) (greedy table (n mod base)))
        + remainder table (n mod base) = n mod base"
    by (rule Cons.IH)
  moreover have "n div base * base + n mod base = n" by simp
  ultimately show ?case using e by (simp add: add.assoc)
qed

lemma remainder_unit: "remainder table 0 = 0"
  by (induction table) auto

lemma remainder_with_unit: "(1, letters) \<in> set table \<Longrightarrow> remainder table n = 0"
proof (induction table arbitrary: n)
  case Nil
  then show ?case by simp
next
  case (Cons entry table)
  obtain base l where e: "entry = (base, l)" by (cases entry)
  show ?case
  proof (cases "entry = (1, letters)")
    case True
    then show ?thesis by (simp add: remainder_unit)
  next
    case False
    with Cons.prems have "(1, letters) \<in> set table" by simp
    then have "remainder table (n mod base) = 0" by (rule Cons.IH)
    with e show ?thesis by simp
  qed
qed

lemma roman_remainder: "remainder ROMAN_NUMERALS_MAP n = 0"
proof -
  have "(1, ''I'') \<in> set ROMAN_NUMERALS_MAP"
    by (simp add: ROMAN_NUMERALS_MAP_def)
  then show ?thesis by (rule remainder_with_unit)
qed

lemma roman_exact:
  "sum_list (map (\<lambda>(count, base, letters). count * base) (greedy ROMAN_NUMERALS_MAP n)) = n"
  using greedy_sum[of ROMAN_NUMERALS_MAP n] by (simp add: roman_remainder)

lemma roman_seven: "format_integer 7 ''I'' None = ''VII''"
  by code_simp

lemma english_table: "words_table (Some ''en'') = english_words"
  by (simp add: words_table_def english_words_def NUM_TO_WORD_MAPS_def)

lemma english_word: "word_of english_words (Suc 0) = ''one''" "word_of english_words 2 = ''two''"
  "word_of english_words 4 = ''four''" "word_of english_words 30 = ''thirty''"
  "word_of english_words 100 = ''hundred''" "word_of english_words 1000 = ''thousand''"
  by (simp_all add: word_of_def english_words_def NUM_TO_WORD_MAPS_def)

lemma words_34: "words_below_hundred english_words 34 = ''thirty-four''"
  by (simp add: words_below_hundred_def english_word)

lemma words_234: "words_below_thousand english_words 234 = ''two hundred thirty-four''"
proof -
  have "(234::nat) div 100 = 2" "(234::nat) mod 100 = 34" by simp_all
  then show ?thesis by (simp add: words_below_thousand_def english_word words_34)
qed

lemma words_1: "words_below_thousand english_words (Suc 0) = ''one''"
  by (simp add: words_below_thousand_def words_below_hundred_def english_word)

lemma scales_1234:
  "(1234::nat) div 10 ^ 9 mod 1000 = 0" "(1234::nat) div 10 ^ 6 mod 1000 = 0"
  "(1234::nat) div 1000 mod 1000 = Suc 0" "(1234::nat) div 1 mod 1000 = 234"
  "(1234::nat) mod 1000 = 234"
  by simp_all

lemma words_1234_en:
  "format_integer 1234 ''w'' (Some ''en'') = ''one thousand two hundred thirty-four''"
  by (simp add: format_integer_def int_to_words_def english_table scales_1234 english_word words_234 words_1)

text \<open>
  Claim C7. \<open>format-integer\<close> with picture \<open>I\<close> renders an integer by greedy
  decomposition over the fixed roman-numeral map, 1000 \<open>M\<close>, 900 \<open>CM\<close>, 500 \<open>D\<close>,
  400 \<open>CD\<close>, 100 \<open>C\<close>, 90 \<open>XC\<close>, 50 \<open>L\<close>, 40 \<open>XL\<close>, 10 \<open>X\<close>, 9 \<open>IX\<close>, 5 \<open>V\<close>,
  4 \<open>IV\<close>, 1 \<open>I\<close>: the numeral repeats the letters of each base as often as the
  decomposition counts it, and the counted bases add up to the integer. So
  \<open>format-integer(7, "I")\<close> is \<open>VII\<close>. With picture \<open>w\<close> and language \<open>en\<close> it
  renders with the English table of cardinal words, so
  \<open>format-integer(1234, "w", "en")\<close> is \<open>one thousand two hundred thirty-four\<close>.
\<close>

theorem format_integer_roman_and_words:
  "ROMAN_NUMERALS_MAP =
     [(1000, ''M''), (900, ''CM''), (500, ''D''), (400, ''CD''), (100, ''C''), (90, ''XC''),
      (50, ''L''), (40, ''XL''), (10, ''X''), (9, ''IX''), (5, ''V''), (4, ''IV''), (1, ''I'')]
   \<and> format_integer n ''I'' lang =
       concat (map (\<lambda>(count, base, letters). concat (replicate count letters))
                   (greedy ROMAN_NUMERALS_MAP n))
   \<and> sum_list (map (\<lambda>(count, base, letters). count * base) (greedy ROMAN_NUMERALS_MAP n)) = n
   \<and> format_integer 7 ''I'' None = ''VII''
   \<and> format_integer 1234 ''w'' (Some ''en'') = ''one thousand two hundred thirty-four''"
proof (intro conjI)
  show "ROMAN_NUMERALS_MAP =
     [(1000, ''M''), (900, ''CM''), (500, ''D''), (400, ''CD''), (100, ''C''), (90, ''XC''),
      (50, ''L''), (40, ''XL''), (10, ''X''), (9, ''IX''), (5, ''V''), (4, ''IV''), (1, ''I'')]"
    by (simp add: ROMAN_NUMERALS_MAP_def)
  show "format_integer n ''I'' lang =
       concat (map (\<lambda>(count, base, letters). concat (replicate count letters))
                   (greedy ROMAN_NUMERALS_MAP n))"
    by (simp add: format_integer_def int_to_roman_def)
  show "sum_list (map (\<lambda>(count, base, letters). count * base) (greedy ROMAN_NUMERALS_MAP n)) = n"
    by (rule roman_exact)
  show "format_integer 7 ''I'' None = ''VII''"
    by (rule roman_seven)
  show "format_integer 1234 ''w'' (Some ''en'') = ''one thousand two hundred thirty-four''"
    by (rule words_1234_en)
qed

section \<open>Maps and arrays are persistent\<close>

lemma allocate_fresh:
  "allocate h v = (h', r) \<Longrightarrow>
   deref h r = None \<and> deref h' r = Some v \<and> (\<forall>b. deref h b \<noteq> None \<longrightarrow> deref h' b = deref h b)"
  by (auto simp: allocate_def deref_def nth_append)

lemma map_put_new:
  assumes "evaluate_map_put h a k v = Inr (h', r)"
  shows "\<exists>m. deref h a = Some (PMap m) \<and> deref h' a = Some (PMap m) \<and> r \<noteq> a
     \<and> deref h r = None \<and> deref h' r = Some (PMap (map_put m k v))
     \<and> (\<forall>b. deref h b \<noteq> None \<longrightarrow> deref h' b = deref h b)"
proof -
  from assms obtain m where m: "deref h a = Some (PMap m)"
    and al: "allocate h (PMap (map_put m k v)) = (h', r)"
    by (auto simp: evaluate_map_put_def split: option.splits pyval.splits)
  from allocate_fresh[OF al] m show ?thesis by auto
qed

lemma map_remove_new:
  assumes "evaluate_map_remove h a ks = Inr (h', r)"
  shows "\<exists>m. deref h a = Some (PMap m) \<and> deref h' a = Some (PMap m) \<and> r \<noteq> a
     \<and> deref h r = None \<and> deref h' r = Some (PMap (map_remove m ks))
     \<and> (\<forall>b. deref h b \<noteq> None \<longrightarrow> deref h' b = deref h b)"
proof -
  from assms obtain m where m: "deref h a = Some (PMap m)"
    and al: "allocate h (PMap (map_remove m ks)) = (h', r)"
    by (auto simp: evaluate_map_remove_def split: option.splits pyval.splits)
  from allocate_fresh[OF al] m show ?thesis by auto
qed

lemma array_append_new:
  assumes "evaluate_array_append h a v = Inr (h', r)"
  shows "\<exists>xs. deref h a = Some (PArray xs) \<and> deref h' a = Some (PArray xs) \<and> r \<noteq> a
     \<and> deref h r = None \<and> deref h' r = Some (PArray (array_append xs v))
     \<and> (\<forall>b. deref h b \<noteq> None \<longrightarrow> deref h' b = deref h b)"
proof -
  from assms obtain xs where m: "deref h a = Some (PArray xs)"
    and al: "allocate h (PArray (array_append xs v)) = (h', r)"
    by (auto simp: evaluate_array_append_def split: option.splits pyval.splits)
  from allocate_fresh[OF al] m show ?thesis by auto
qed

lemma operations_return:
  "(deref h a = Some (PMap m) \<longrightarrow>
      (\<exists>h' r. evaluate_map_put h a k v = Inr (h', r))
      \<and> (\<exists>h' r. evaluate_map_remove h a ks = Inr (h', r)))
   \<and> (deref h a = Some (PArray xs) \<longrightarrow> (\<exists>h' r. evaluate_array_append h a v = Inr (h', r)))"
  by (simp add: evaluate_map_put_def evaluate_map_remove_def evaluate_array_append_def
        allocate_def)

text \<open>
  Claim C4. For every map and every array, \<open>map:put\<close>, \<open>map:remove\<close> and
  \<open>array:append\<close> return a new map or array and leave the original unchanged: the
  result lives at an address that held nothing before the call and differs from
  the address of the argument, the argument's address holds the same map or array
  after the call, and so does every other address that held an object. No
  operation changes an existing map or array. On a map, respectively an array, the
  operations do return.
\<close>

theorem maps_and_arrays_persistent:
  "(evaluate_map_put h a k v = Inr (h', r) \<longrightarrow>
      (\<exists>m. deref h a = Some (PMap m) \<and> deref h' a = Some (PMap m) \<and> r \<noteq> a
         \<and> deref h r = None \<and> deref h' r = Some (PMap (map_put m k v))
         \<and> (\<forall>b. deref h b \<noteq> None \<longrightarrow> deref h' b = deref h b)))
   \<and> (evaluate_map_remove h a ks = Inr (h', r) \<longrightarrow>
      (\<exists>m. deref h a = Some (PMap m) \<and> deref h' a = Some (PMap m) \<and> r \<noteq> a
         \<and> deref h r = None \<and> deref h' r = Some (PMap (map_remove m ks))
         \<and> (\<forall>b. deref h b \<noteq> None \<longrightarrow> deref h' b = deref h b)))
   \<and> (evaluate_array_append h a v = Inr (h', r) \<longrightarrow>
      (\<exists>xs. deref h a = Some (PArray xs) \<and> deref h' a = Some (PArray xs) \<and> r \<noteq> a
         \<and> deref h r = None \<and> deref h' r = Some (PArray (array_append xs v))
         \<and> (\<forall>b. deref h b \<noteq> None \<longrightarrow> deref h' b = deref h b)))
   \<and> (deref g c = Some (PMap m) \<longrightarrow>
      (\<exists>g' s. evaluate_map_put g c k v = Inr (g', s))
      \<and> (\<exists>g' s. evaluate_map_remove g c ks = Inr (g', s)))
   \<and> (deref g c = Some (PArray xs) \<longrightarrow> (\<exists>g' s. evaluate_array_append g c v = Inr (g', s)))"
  using map_put_new[of h a k v h' r] map_remove_new[of h a ks h' r]
    array_append_new[of h a v h' r] operations_return[of g c m k v ks xs]
  by blast

theorem maps_and_arrays_persistent_witness:
  "evaluate_map_put example_store 0 (AInt 6) (PAtom (AStr ''Sonnabend''))
     = Inr (example_store @ [PMap (map_put weekdays (AInt 6) (PAtom (AStr ''Sonnabend'')))], 2)
   \<and> deref (example_store @ [PMap (map_put weekdays (AInt 6) (PAtom (AStr ''Sonnabend'')))]) 0
       = Some (PMap weekdays)
   \<and> deref (example_store @ [PMap (map_put weekdays (AInt 6) (PAtom (AStr ''Sonnabend'')))]) 2
       = Some (PMap (map_put weekdays (AInt 6) (PAtom (AStr ''Sonnabend''))))
   \<and> map_of (map_put weekdays (AInt 6) (PAtom (AStr ''Sonnabend''))) (AInt 6)
       = Some (PAtom (AStr ''Sonnabend''))
   \<and> map_of weekdays (AInt 6) = Some (PAtom (AStr ''Samstag''))
   \<and> evaluate_map_remove example_store 0 [AInt 4]
     = Inr (example_store @ [PMap (map_remove weekdays [AInt 4])], 2)
   \<and> deref (example_store @ [PMap (map_remove weekdays [AInt 4])]) 0 = Some (PMap weekdays)
   \<and> evaluate_array_append example_store 1 (PAtom (AStr ''d''))
     = Inr (example_store
            @ [PArray [PAtom (AStr ''a''), PAtom (AStr ''b''), PAtom (AStr ''c''),
                       PAtom (AStr ''d'')]], 2)
   \<and> deref (example_store
            @ [PArray [PAtom (AStr ''a''), PAtom (AStr ''b''), PAtom (AStr ''c''),
                       PAtom (AStr ''d'')]]) 1
       = Some (PArray [PAtom (AStr ''a''), PAtom (AStr ''b''), PAtom (AStr ''c'')])
   \<and> deref example_store 0 = Some (PMap weekdays)"
proof -
  have put: "evaluate_map_put example_store 0 (AInt 6) (PAtom (AStr ''Sonnabend''))
     = Inr (example_store @ [PMap (map_put weekdays (AInt 6) (PAtom (AStr ''Sonnabend'')))], 2)"
    by (simp add: evaluate_map_put_def deref_def allocate_def example_store_def)
  have remove: "evaluate_map_remove example_store 0 [AInt 4]
     = Inr (example_store @ [PMap (map_remove weekdays [AInt 4])], 2)"
    by (simp add: evaluate_map_remove_def deref_def allocate_def example_store_def)
  have append: "evaluate_array_append example_store 1 (PAtom (AStr ''d''))
     = Inr (example_store
            @ [PArray [PAtom (AStr ''a''), PAtom (AStr ''b''), PAtom (AStr ''c''),
                       PAtom (AStr ''d'')]], 2)"
    by (simp add: evaluate_array_append_def deref_def allocate_def example_store_def
          array_append_def)
  have orig: "deref example_store 0 = Some (PMap weekdays)"
    "deref example_store 1
       = Some (PArray [PAtom (AStr ''a''), PAtom (AStr ''b''), PAtom (AStr ''c'')])"
    by (simp_all add: deref_def example_store_def)
  note T = maps_and_arrays_persistent
  from T [where h = example_store and a = 0 and k = "AInt 6" and v = "PAtom (AStr ''Sonnabend'')"
            and h' = "example_store @ [PMap (map_put weekdays (AInt 6) (PAtom (AStr ''Sonnabend'')))]"
            and r = 2] put orig(1)
  have p1: "deref (example_store @ [PMap (map_put weekdays (AInt 6) (PAtom (AStr ''Sonnabend'')))]) 0
       = Some (PMap weekdays)"
    and p2: "deref (example_store @ [PMap (map_put weekdays (AInt 6) (PAtom (AStr ''Sonnabend'')))]) 2
       = Some (PMap (map_put weekdays (AInt 6) (PAtom (AStr ''Sonnabend''))))"
    by auto
  from T [where h = example_store and a = 0 and ks = "[AInt 4]"
            and h' = "example_store @ [PMap (map_remove weekdays [AInt 4])]" and r = 2]
    remove orig(1)
  have r1: "deref (example_store @ [PMap (map_remove weekdays [AInt 4])]) 0 = Some (PMap weekdays)"
    by auto
  from T [where h = example_store and a = 1 and v = "PAtom (AStr ''d'')"
            and h' = "example_store
               @ [PArray [PAtom (AStr ''a''), PAtom (AStr ''b''), PAtom (AStr ''c''),
                          PAtom (AStr ''d'')]]" and r = 2]
    append orig(2)
  have a1: "deref (example_store
            @ [PArray [PAtom (AStr ''a''), PAtom (AStr ''b''), PAtom (AStr ''c''),
                       PAtom (AStr ''d'')]]) 1
       = Some (PArray [PAtom (AStr ''a''), PAtom (AStr ''b''), PAtom (AStr ''c'')])"
    by auto
  have m1: "map_of (map_put weekdays (AInt 6) (PAtom (AStr ''Sonnabend''))) (AInt 6)
       = Some (PAtom (AStr ''Sonnabend''))"
    by (rule map_of_map_put)
  have m2: "map_of weekdays (AInt 6) = Some (PAtom (AStr ''Samstag''))"
    by (simp add: weekdays_def)
  from put p1 p2 m1 m2 remove r1 append a1 orig(1) show ?thesis by blast
qed

end
